theory Spec2Isabelle
  imports Main
begin

section \<open>Python strings\<close>

text \<open>
  A Python \<open>str\<close> is modelled as a \<^typ>\<open>string\<close>: a list of characters. HOL characters
  are the 256 code points of Latin-1, so the text functions below (\<open>str.lower\<close>,
  \<open>str.isspace\<close>, the regular-expression class \<open>\d\<close>) are given on that range.
\<close>

definition squote :: char where
  "squote = CHR 0x27"

definition backslash :: char where
  "backslash = CHR 0x5C"

definition newline :: char where
  "newline = CHR 0x0A"

text \<open>\<open>s.replace(old, new)\<close>: every occurrence of \<open>old\<close>, left to right, without
  overlaps; an empty \<open>old\<close> inserts \<open>new\<close> before every character and at the end.\<close>

function str_replace :: "string \<Rightarrow> string \<Rightarrow> string \<Rightarrow> string" where
  "str_replace old new [] = (if old = [] then new else [])"
| "str_replace old new (c # cs) =
     (if old = [] then new @ c # str_replace old new cs
      else if take (length old) (c # cs) = old
        then new @ str_replace old new (drop (length old) (c # cs))
      else c # str_replace old new cs)"
  by pat_completeness auto
termination
  by (relation "measure (\<lambda>(old, new, s). length s)") auto

text \<open>\<open>str(i)\<close> for a non-negative integer: its decimal digits.\<close>

definition digit_char :: "nat \<Rightarrow> char" where
  "digit_char d = ''0123456789'' ! d"

fun str_nat :: "nat \<Rightarrow> string" where
  "str_nat n = (if n < 10 then [digit_char n] else str_nat (n div 10) @ [digit_char (n mod 10)])"

declare str_nat.simps [simp del]

text \<open>The \<open>repr\<close> of a list of strings, as an f-string prints it. The elements are quoted
  with single quotes; this is Python's \<open>repr\<close> for strings of printable characters with
  no quote and no backslash, which is what the launcher identifiers are.\<close>

fun join :: "string \<Rightarrow> string list \<Rightarrow> string" where
  "join sep [] = []"
| "join sep [x] = x"
| "join sep (x # y # ys) = x @ sep @ join sep (y # ys)"

definition repr_str :: "string \<Rightarrow> string" where
  "repr_str s = squote # s @ [squote]"

definition repr_list :: "string list \<Rightarrow> string" where
  "repr_list xs = ''['' @ join '', '' (map repr_str xs) @ '']''"

section \<open>Processes, exceptions and effects\<close>

text \<open>
  External tools are opaque subprocesses: all the program observes of one is its exit code
  and its standard output. The host is the environment a run sees. \<open>subprocess_run\<close> gives
  the completed process of an argument vector started in a working directory,
  \<open>shutil_which\<close> the path of a binary if it is found, \<open>click_confirm\<close> the user's answer
  to a yes/no prompt. \<open>path_resolve\<close> stands for \<open>Path(s).expanduser().resolve()\<close> and
  \<open>xdg_data_home\<close> for the function of that name: both are library code that reads the
  file system and the environment. \<open>can_start\<close> says whether the program a command
  names, its first word, can be started at all; when it cannot, \<open>subprocess.run\<close> raises
  \<open>FileNotFoundError\<close> and there is no completed process. A prompt that is aborted is
  not part of this model.
\<close>

datatype path = Path (anchor: string) (parts: "string list")

definition joinpath :: "path \<Rightarrow> string \<Rightarrow> path" where
  \<comment> \<open>\<open>p / name\<close> for a relative name of one component\<close>
  "joinpath p name = Path (anchor p) (parts p @ [name])"

definition path_str :: "path \<Rightarrow> string" where
  "path_str p = anchor p @ join ''/'' (parts p)"

record completed_process =
  returncode :: int
  stdout :: string

datatype error =
  CalledProcessError int "string list"
| FileNotFoundError string
| IndexError
| ValueError string
| TypeError string

text \<open>\<open>Ran cmd cwd\<close>: \<open>subprocess.run\<close> was called with this command and working
  directory, whether or not the program could be started.\<close>

datatype event =
  Ran "string list" "path option"
| Confirm string

record host =
  can_start :: "string \<Rightarrow> bool"
  subprocess_run :: "string list \<Rightarrow> path option \<Rightarrow> completed_process"
  shutil_which :: "string \<Rightarrow> string option"
  os_name :: string
  os_environ :: "string \<Rightarrow> string option"
  click_confirm :: "string \<Rightarrow> bool"
  path_resolve :: "string \<Rightarrow> path"
  xdg_data_home :: path

text \<open>
  An effectful function returns its outcome, \<open>Inl\<close> an exception that left it or \<open>Inr\<close>
  its value, together with the events it caused, in order. Console output
  (\<open>click.echo\<close>) is not recorded.
\<close>

type_synonym 'a io = "(error + 'a) \<times> event list"

definition return_io :: "'a \<Rightarrow> 'a io" where
  "return_io x = (Inr x, [])"

definition raise_io :: "error \<Rightarrow> 'a io" where
  "raise_io e = (Inl e, [])"

definition bind_io :: "'a io \<Rightarrow> ('a \<Rightarrow> 'b io) \<Rightarrow> 'b io" where
  "bind_io m f =
     (case m of
        (Inl e, tr) \<Rightarrow> (Inl e, tr)
      | (Inr x, tr) \<Rightarrow> (case f x of (r, tr') \<Rightarrow> (r, tr @ tr')))"

text \<open>\<open>try: m except (classes): handler\<close>, the classes given as a predicate on
  exceptions; the handlers of this program never read the exception they catch.\<close>

definition try_except :: "'a io \<Rightarrow> (error \<Rightarrow> bool) \<Rightarrow> 'a io \<Rightarrow> 'a io" where
  "try_except m caught handler =
     (case m of
        (Inl e, tr) \<Rightarrow>
          (if caught e then (case handler of (r, tr') \<Rightarrow> (r, tr @ tr')) else (Inl e, tr))
      | (Inr x, tr) \<Rightarrow> (Inr x, tr))"

fun called_process_error :: "error \<Rightarrow> bool" where
  "called_process_error (CalledProcessError rc cmd) = True"
| "called_process_error e = False"

text \<open>Truthiness of a value of type \<open>str | None\<close>.\<close>

fun truthy :: "string option \<Rightarrow> bool" where
  "truthy None = False"
| "truthy (Some s) = (s \<noteq> [])"

definition is_space :: "char \<Rightarrow> bool" where
  \<comment> \<open>\<open>str.isspace\<close> on one character\<close>
  "is_space c = (c \<in> set [CHR 0x09, CHR 0x0A, CHR 0x0B, CHR 0x0C, CHR 0x0D, CHR 0x1C,
     CHR 0x1D, CHR 0x1E, CHR 0x1F, CHR 0x20, CHR 0x85, CHR 0xA0])"

definition strip :: "string \<Rightarrow> string" where
  "strip s = rev (dropWhile is_space (rev (dropWhile is_space s)))"

text \<open>
  \<open>run_command\<close> is defined twice with the same body, in \<open>cli.py\<close> and in
  \<open>launchers/base.py\<close>. The only exception it handles is \<open>CalledProcessError\<close>, which
  it raises again under \<open>check\<close>: with \<open>check\<close> a non-zero exit raises, without it
  the exit code is dropped. A program that cannot be started is a \<open>FileNotFoundError\<close>
  of \<open>subprocess.run\<close>, which passes through whatever \<open>check\<close> is; so does the
  \<open>IndexError\<close> for an empty command. The arguments are the command,
  \<open>capture_output\<close>, \<open>check\<close> and \<open>cwd\<close>.
\<close>

definition run_command :: "host \<Rightarrow> string list \<Rightarrow> bool \<Rightarrow> bool \<Rightarrow> path option \<Rightarrow> string option io" where
  "run_command h cmd capture_output check cwd =
     (case cmd of
        [] \<Rightarrow> (Inl IndexError, [Ran cmd cwd])
      | program # args \<Rightarrow>
          (if \<not> can_start h program then (Inl (FileNotFoundError program), [Ran cmd cwd])
           else
             let result = subprocess_run h cmd cwd in
             if check \<and> returncode result \<noteq> 0
               then (Inl (CalledProcessError (returncode result) cmd), [Ran cmd cwd])
             else if capture_output then (Inr (Some (strip (stdout result))), [Ran cmd cwd])
             else (Inr None, [Ran cmd cwd])))"

definition run_command_with_spinner ::
  "host \<Rightarrow> string list \<Rightarrow> string \<Rightarrow> bool \<Rightarrow> bool \<Rightarrow> path option \<Rightarrow> string option io" where
  "run_command_with_spinner h cmd spinner_text capture_output check cwd =
     run_command h cmd capture_output check cwd"

section \<open>Settings and the launcher registry\<close>

record tmux_launcher_settings =
  session :: string
  auto_attach :: bool

record terminal_launcher_settings =
  terminal_command :: string

record launcher_settings =
  tmux :: tmux_launcher_settings
  terminal :: terminal_launcher_settings

record lets_settings =
  launcher :: string
  ai_tool :: string
  editor_command :: string
  worktree_base_dir :: string
  copy_env_files :: bool
  env_file_patterns :: "string list"
  default_base_branch :: string
  launchers :: launcher_settings

datatype workspace_launcher =
  TmuxLauncher lets_settings
| TerminalLauncher lets_settings

fun is_available :: "host \<Rightarrow> workspace_launcher \<Rightarrow> bool" where
  "is_available h (TmuxLauncher settings) = (shutil_which h ''tmux'' \<noteq> None)"
| "is_available h (TerminalLauncher settings) =
     (if os_name h = ''posix'' then
        (if truthy (shutil_which h ''open'') then True
         else if truthy (shutil_which h ''gnome-terminal'') \<or> truthy (shutil_which h ''xterm'')
           then True
         else False)
      else if os_name h = ''nt'' then True
      else False)"

text \<open>The dictionary of \<open>get_launcher\<close>, in insertion order.\<close>

definition launchers_dict :: "(string \<times> (lets_settings \<Rightarrow> workspace_launcher)) list" where
  "launchers_dict = [(''tmux'', TmuxLauncher), (''terminal'', TerminalLauncher)]"

definition get_launcher :: "string \<Rightarrow> lets_settings \<Rightarrow> error + workspace_launcher" where
  "get_launcher launcher_name settings =
     (case map_of launchers_dict launcher_name of
        None \<Rightarrow>
          (let available_launchers = map fst launchers_dict;
               msg = ''Unknown launcher: '' @ launcher_name @ ''. Available: ''
                     @ repr_list available_launchers
           in Inl (ValueError msg))
      | Some cls \<Rightarrow> Inr (cls settings))"

fun get_available_launchers_loop ::
  "host \<Rightarrow> lets_settings \<Rightarrow> string list \<Rightarrow> string list \<Rightarrow> error + string list" where
  "get_available_launchers_loop h settings available [] = Inr available"
| "get_available_launchers_loop h settings available (name # names) =
     (case get_launcher name settings of
        Inl e \<Rightarrow> Inl e
      | Inr l \<Rightarrow>
          get_available_launchers_loop h settings
            (if is_available h l then available @ [name] else available) names)"

definition get_available_launchers :: "host \<Rightarrow> lets_settings \<Rightarrow> error + string list" where
  "get_available_launchers h settings =
     get_available_launchers_loop h settings [] [''tmux'', ''terminal'']"

fun get_best_available_launcher_loop ::
  "host \<Rightarrow> lets_settings \<Rightarrow> string list \<Rightarrow> error + string" where
  "get_best_available_launcher_loop h settings [] = Inr ''terminal''"
| "get_best_available_launcher_loop h settings (launcher_name # names) =
     (case get_launcher launcher_name settings of
        Inl e \<Rightarrow> Inl e
      | Inr l \<Rightarrow>
          (if is_available h l then Inr launcher_name
           else get_best_available_launcher_loop h settings names))"

definition get_best_available_launcher :: "host \<Rightarrow> lets_settings \<Rightarrow> path \<Rightarrow> error + string" where
  "get_best_available_launcher h settings project_path =
     (let fallback = get_best_available_launcher_loop h settings [''tmux'', ''terminal''] in
      case get_launcher (launcher settings) settings of
        Inl (ValueError msg) \<Rightarrow> fallback
      | Inl e \<Rightarrow> Inl e
      | Inr l \<Rightarrow> (if is_available h l then Inr (launcher settings) else fallback))"

section \<open>More of Python's text functions\<close>

definition dquote :: char where
  "dquote = CHR 0x22"

definition is_digit :: "char \<Rightarrow> bool" where
  \<comment> \<open>the class \<open>\d\<close>, and the digits \<open>int\<close> reads\<close>
  "is_digit c = (c \<in> set ''0123456789'')"

text \<open>\<open>s.split()\<close>: the maximal runs of characters that are not whitespace. The first
  argument holds the run being read, reversed.\<close>

fun split_ws_acc :: "string \<Rightarrow> string \<Rightarrow> string list" where
  "split_ws_acc w [] = (if w = [] then [] else [rev w])"
| "split_ws_acc w (c # cs) =
     (if is_space c then (if w = [] then split_ws_acc [] cs else rev w # split_ws_acc [] cs)
      else split_ws_acc (c # w) cs)"

definition split_ws :: "string \<Rightarrow> string list" where
  "split_ws s = split_ws_acc [] s"

text \<open>\<open>s.split(sep)\<close> for a separator of one character: never an empty list.\<close>

fun split_char :: "char \<Rightarrow> string \<Rightarrow> string list" where
  "split_char sep [] = [[]]"
| "split_char sep (c # cs) =
     (if c = sep then [] # split_char sep cs
      else (case split_char sep cs of
              [] \<Rightarrow> [[c]]
            | w # ws \<Rightarrow> (c # w) # ws))"

text \<open>\<open>int(s)\<close> on a string: surrounding whitespace, an optional sign, then decimal digits
  in groups separated by single underscores. \<open>None\<close> stands for \<open>ValueError\<close>.\<close>

definition digit_val :: "char \<Rightarrow> nat" where
  "digit_val c = of_char c - 48"

fun digit_groups :: "string \<Rightarrow> bool" where
  "digit_groups [] = False"
| "digit_groups [c] = is_digit c"
| "digit_groups (c # d # cs) =
     (if is_digit c then (if d = CHR ''_'' then digit_groups cs else digit_groups (d # cs))
      else False)"

definition decimal_val :: "string \<Rightarrow> nat" where
  "decimal_val ds = foldl (\<lambda>a c. 10 * a + digit_val c) 0 (filter (\<lambda>c. c \<noteq> CHR ''_'') ds)"

definition py_int :: "string \<Rightarrow> int option" where
  "py_int s =
     (case strip s of
        [] \<Rightarrow> None
      | c # cs \<Rightarrow>
          (if c = CHR ''-'' then (if digit_groups cs then Some (- int (decimal_val cs)) else None)
           else if c = CHR ''+'' then (if digit_groups cs then Some (int (decimal_val cs)) else None)
           else (if digit_groups (c # cs) then Some (int (decimal_val (c # cs))) else None)))"

definition str_int :: "int \<Rightarrow> string" where
  "str_int i = (if i < 0 then CHR ''-'' # str_nat (nat (- i)) else str_nat (nat i))"

definition lower_char :: "char \<Rightarrow> char" where
  \<comment> \<open>\<open>str.lower\<close> on one character: the ASCII capitals, and the Latin-1 capitals\<close>
  "lower_char c =
     (let n = of_char c :: nat in
      if (65 \<le> n \<and> n \<le> 90) \<or> (192 \<le> n \<and> n \<le> 222 \<and> n \<noteq> 215) then char_of (n + 32) else c)"

definition lower :: "string \<Rightarrow> string" where
  "lower s = map lower_char s"

text \<open>\<open>re.search(r"#(\d+)", task)\<close>: group 1 of the leftmost match, the longest run of
  digits after the first \<open>#\<close> that a digit follows.\<close>

fun search_issue :: "string \<Rightarrow> string option" where
  "search_issue [] = None"
| "search_issue (c # cs) =
     (if c = CHR ''#'' \<and> takeWhile is_digit cs \<noteq> [] then Some (takeWhile is_digit cs)
      else search_issue cs)"

text \<open>The text contains \<open>#\<close> followed by a digit. This is the wording of the
  specification (``the task text contains \<open>#<digits>\<close>''), to compare with
  \<open>search_issue\<close>.\<close>

fun has_issue_ref :: "string \<Rightarrow> bool" where
  "has_issue_ref (c # d # cs) = ((c = CHR ''#'' \<and> is_digit d) \<or> has_issue_ref (d # cs))"
| "has_issue_ref cs = False"

text \<open>\<open>re.sub(r"[^a-z0-9-]", "", s)\<close> keeps the characters of the class.\<close>

definition branch_char :: "char \<Rightarrow> bool" where
  "branch_char c = (c \<in> set ''abcdefghijklmnopqrstuvwxyz0123456789-'')"

subsection \<open>The clock\<close>

text \<open>A reading of \<open>datetime.now(UTC)\<close>, and the two formats the program prints it in.
  \<open>%H\<close>, \<open>%M\<close>, \<open>%S\<close>, \<open>%m\<close> and \<open>%d\<close> are two digits, \<open>%Y\<close> is four, padded with
  zeros.\<close>

record datetime =
  year :: nat
  month :: nat
  day :: nat
  hour :: nat
  minute :: nat
  second :: nat

definition zfill :: "nat \<Rightarrow> string \<Rightarrow> string" where
  "zfill w s = replicate (w - length s) (CHR ''0'') @ s"

definition strftime_HMS :: "datetime \<Rightarrow> string" where
  \<comment> \<open>\<open>strftime("%H%M%S")\<close>\<close>
  "strftime_HMS t = zfill 2 (str_nat (hour t)) @ zfill 2 (str_nat (minute t))
     @ zfill 2 (str_nat (second t))"

definition strftime_Ymd_HMS :: "datetime \<Rightarrow> string" where
  \<comment> \<open>\<open>strftime("%Y%m%d-%H%M%S")\<close>\<close>
  "strftime_Ymd_HMS t = zfill 4 (str_nat (year t)) @ zfill 2 (str_nat (month t))
     @ zfill 2 (str_nat (day t)) @ ''-'' @ strftime_HMS t"

section \<open>The tmux launcher\<close>

text \<open>\<open>TmuxLauncher.get_pane_base_index\<close>. The handler catches \<open>CalledProcessError\<close>,
  \<open>ValueError\<close> (from \<open>int\<close>) and \<open>IndexError\<close> (from \<open>[-1]\<close> on an empty list), and the
  function then returns 0.\<close>

fun pane_index_error :: "error \<Rightarrow> bool" where
  "pane_index_error (CalledProcessError rc cmd) = True"
| "pane_index_error (ValueError msg) = True"
| "pane_index_error IndexError = True"
| "pane_index_error e = False"

definition get_pane_base_index :: "host \<Rightarrow> int io" where
  "get_pane_base_index h =
     (case run_command h [''tmux'', ''show-option'', ''-g'', ''pane-base-index''] True True None of
        (Inl e, tr) \<Rightarrow> (if pane_index_error e then (Inr 0, tr) else (Inl e, tr))
      | (Inr None, tr) \<Rightarrow> (Inr 0, tr)
      | (Inr (Some result), tr) \<Rightarrow>
          (if result \<noteq> [] then
             (case split_ws (strip result) of
                [] \<Rightarrow> (Inr 0, tr)
              | w # ws \<Rightarrow>
                  (case py_int (last (w # ws)) of
                     None \<Rightarrow> (Inr 0, tr)
                   | Some i \<Rightarrow> (Inr i, tr)))
           else (Inr 0, tr)))"

text \<open>\<open>TmuxLauncher.setup_workspace\<close>. Only the probe for the session is inside a
  \<open>try\<close>; every other command runs with \<open>check\<close> and outside any handler.\<close>

definition tmux_setup_workspace ::
  "host \<Rightarrow> lets_settings \<Rightarrow> path \<Rightarrow> string \<Rightarrow> string \<Rightarrow> string \<Rightarrow> bool io" where
  "tmux_setup_workspace h settings worktree_path branch_name task ai =
     (if \<not> is_available h (TmuxLauncher settings) then return_io False
      else
        let sess = session (tmux (launchers settings));
            window_name = branch_name
        in
        bind_io
          (try_except
             (bind_io (run_command h [''tmux'', ''has-session'', ''-t'', sess] True True None)
                (\<lambda>_. return_io True))
             called_process_error
             (return_io False))
          (\<lambda>session_exists.
        bind_io
          (if \<not> session_exists then
             run_command h [''tmux'', ''new-session'', ''-d'', ''-s'', sess, ''-n'', window_name,
               ''-c'', path_str worktree_path] False True None
           else
             run_command h [''tmux'', ''new-window'', ''-t'', sess @ '':'', ''-n'', window_name,
               ''-c'', path_str worktree_path] False True None)
          (\<lambda>_.
        bind_io (get_pane_base_index h)
          (\<lambda>base_index.
        let left_pane = base_index;
            right_pane = base_index + 1
        in
        bind_io
          (run_command h [''tmux'', ''split-window'', ''-t'', sess @ '':'' @ window_name, ''-h'',
             ''-c'', path_str worktree_path] False True None)
          (\<lambda>_.
        let editor = (if editor_command settings \<noteq> [] then editor_command settings
                      else (case os_environ h ''EDITOR'' of None \<Rightarrow> ''vim'' | Some e \<Rightarrow> e))
        in
        bind_io
          (run_command h [''tmux'', ''send-keys'', ''-t'',
             sess @ '':'' @ window_name @ ''.'' @ str_int left_pane, editor, ''Enter'']
             False True None)
          (\<lambda>_.
        let escaped_task = str_replace [squote] [squote, backslash, squote, squote] task;
            ai_cmd = ai @ '' --dangerously-skip-permissions '' @ [squote] @ escaped_task
                     @ [squote]
        in
        bind_io
          (run_command h [''tmux'', ''send-keys'', ''-t'',
             sess @ '':'' @ window_name @ ''.'' @ str_int right_pane, ai_cmd, ''Enter'']
             False True None)
          (\<lambda>_.
        bind_io
          (run_command h [''tmux'', ''select-pane'', ''-t'',
             sess @ '':'' @ window_name @ ''.'' @ str_int right_pane] False True None)
          (\<lambda>_. return_io True))))))))"

section \<open>The terminal launcher\<close>

definition apple_script :: "path \<Rightarrow> string \<Rightarrow> string" where
  "apple_script worktree_path command =
     [newline] @ replicate 16 (CHR '' '') @ ''tell application '' @ [dquote] @ ''Terminal''
       @ [dquote, newline]
     @ replicate 20 (CHR '' '') @ ''do script '' @ [dquote] @ ''cd '' @ [squote]
       @ path_str worktree_path @ [squote] @ '' && '' @ command @ [dquote, newline]
     @ replicate 20 (CHR '' '') @ ''activate'' @ [newline]
     @ replicate 16 (CHR '' '') @ ''end tell'' @ [newline]
     @ replicate 16 (CHR '' '')"

text \<open>\<open>TerminalLauncher._open_terminal_with_command\<close>. The last branch calls
  \<open>run_command\<close> with a keyword \<open>shell\<close> that it does not take, which is a
  \<open>TypeError\<close> before any process starts.\<close>

definition open_terminal_with_command :: "host \<Rightarrow> path \<Rightarrow> string \<Rightarrow> unit io" where
  "open_terminal_with_command h worktree_path command =
     (if os_name h = ''posix'' then
        (if truthy (shutil_which h ''open'') then
           bind_io (run_command h [''osascript'', ''-e'', apple_script worktree_path command]
                      False True None)
             (\<lambda>_. return_io ())
         else if truthy (shutil_which h ''gnome-terminal'') then
           bind_io (run_command h [''gnome-terminal'', ''--working-directory'',
                      path_str worktree_path, ''--'', ''bash'', ''-c'', command @ ''; exec bash'']
                      False True None)
             (\<lambda>_. return_io ())
         else if truthy (shutil_which h ''xterm'') then
           bind_io (run_command h [''xterm'', ''-e'',
                      ''cd '' @ [squote] @ path_str worktree_path @ [squote] @ '' && '' @ command
                        @ '' && exec bash'']
                      False True None)
             (\<lambda>_. return_io ())
         else return_io ())
      else if os_name h = ''nt'' then
        (if truthy (shutil_which h ''wt'') then
           bind_io (run_command h [''wt'', ''new-tab'', ''--startingDirectory'',
                      path_str worktree_path, ''cmd'', ''/k'', command] False True None)
             (\<lambda>_. return_io ())
         else raise_io (TypeError (''run_command() got an unexpected keyword argument ''
                @ [squote] @ ''shell'' @ [squote])))
      else return_io ())"

text \<open>The loop of \<open>_open_editor\<close> over the known editors: the first one found.\<close>

fun detect_editor :: "host \<Rightarrow> string list \<Rightarrow> string" where
  "detect_editor h [] = []"
| "detect_editor h (cmd # cmds) =
     (if truthy (shutil_which h cmd) then cmd else detect_editor h cmds)"

definition open_editor :: "host \<Rightarrow> lets_settings \<Rightarrow> path \<Rightarrow> unit io" where
  "open_editor h settings worktree_path =
     (let editor_cmd = (if editor_command settings = []
                        then detect_editor h [''code'', ''cursor'', ''subl'', ''atom'']
                        else editor_command settings)
      in if editor_cmd \<noteq> [] then
           try_except
             (bind_io (run_command h [editor_cmd, path_str worktree_path] False False None)
                (\<lambda>_. return_io ()))
             called_process_error
             (return_io ())
         else return_io ())"

definition terminal_setup_workspace ::
  "host \<Rightarrow> lets_settings \<Rightarrow> path \<Rightarrow> string \<Rightarrow> string \<Rightarrow> string \<Rightarrow> bool io" where
  "terminal_setup_workspace h settings worktree_path branch_name task ai =
     (if \<not> is_available h (TerminalLauncher settings) then return_io False
      else
        let escaped_task = str_replace [squote] [squote, backslash, squote, squote] task;
            ai_cmd = ai @ '' --dangerously-skip-permissions '' @ [squote] @ escaped_task
                     @ [squote]
        in
        try_except
          (bind_io (open_terminal_with_command h worktree_path ai_cmd)
             (\<lambda>_. bind_io (open_editor h settings worktree_path)
             (\<lambda>_. return_io True)))
          called_process_error
          (return_io False))"

text \<open>\<open>launcher.setup_workspace(...)\<close>: dispatch on the class of the launcher.\<close>

fun setup_workspace ::
  "host \<Rightarrow> workspace_launcher \<Rightarrow> path \<Rightarrow> string \<Rightarrow> string \<Rightarrow> string \<Rightarrow> bool io" where
  "setup_workspace h (TmuxLauncher settings) worktree_path branch_name task ai =
     tmux_setup_workspace h settings worktree_path branch_name task ai"
| "setup_workspace h (TerminalLauncher settings) worktree_path branch_name task ai =
     terminal_setup_workspace h settings worktree_path branch_name task ai"

section \<open>Branch names and worktrees\<close>

definition branch_name_prompt :: "string \<Rightarrow> string" where
  "branch_name_prompt task =
     ''Based on this task, generate a short, descriptive git branch name ''
     @ ''(lowercase, hyphen-separated, max 30 chars, no spaces or special chars ''
     @ ''except hyphens). Only output the branch name, nothing else. Task: '' @ task"

text \<open>The clean-up of the AI tool's output in \<open>generate_branch_name\<close>: the last line of
  the stripped output, in lower case, without the characters outside \<open>[a-z0-9-]\<close>, cut
  to 50 characters.\<close>

definition clean_branch_name :: "string \<Rightarrow> string" where
  "clean_branch_name result =
     (let branch_name = last (split_char newline (strip result));
          branch_name = filter branch_char (lower branch_name)
      in take 50 branch_name)"

text \<open>\<open>generate_branch_name\<close>; \<open>now\<close> is the clock when the last fallback reads it. The
  body of the \<open>try\<close> yields \<open>Some\<close> name where the source returns from inside it.\<close>

definition generate_branch_name :: "host \<Rightarrow> datetime \<Rightarrow> string \<Rightarrow> string \<Rightarrow> bool \<Rightarrow> string io" where
  "generate_branch_name h now task ai verbose =
     (let prompt = branch_name_prompt task in
      bind_io
        (try_except
           (bind_io
              (if verbose then run_command h [ai, ''-p'', prompt] True False None
               else run_command_with_spinner h [ai, ''-p'', prompt]
                      (''Asking '' @ ai @ '' for branch name...'') True False None)
              (\<lambda>result.
                 case result of
                   None \<Rightarrow> return_io None
                 | Some r \<Rightarrow>
                     (if r \<noteq> [] then
                        (let branch_name = clean_branch_name r;
                             min_branch_length = 3
                         in if length branch_name \<ge> min_branch_length
                            then return_io (Some branch_name)
                            else return_io None)
                      else return_io None)))
           called_process_error
           (return_io None))
        (\<lambda>returned.
           case returned of
             Some branch_name \<Rightarrow> return_io branch_name
           | None \<Rightarrow>
               (case search_issue task of
                  Some digits \<Rightarrow> return_io (''issue-'' @ digits)
                | None \<Rightarrow> return_io (''task-'' @ strftime_Ymd_HMS now))))"

definition get_worktree_base_dir :: "host \<Rightarrow> string option \<Rightarrow> path" where
  "get_worktree_base_dir h custom_dir =
     (let from_environment =
            (let env_dir = os_environ h ''LETS_WORKTREE_DIR'' in
             case env_dir of
               Some e \<Rightarrow>
                 (if e \<noteq> [] then path_resolve h e
                  else joinpath (joinpath (xdg_data_home h) ''lets'') ''worktrees'')
             | None \<Rightarrow> joinpath (joinpath (xdg_data_home h) ''lets'') ''worktrees'')
      in case custom_dir of
           Some d \<Rightarrow> (if d \<noteq> [] then path_resolve h d else from_environment)
         | None \<Rightarrow> from_environment)"

definition branch_exists :: "host \<Rightarrow> string \<Rightarrow> bool io" where
  "branch_exists h branch_name =
     try_except
       (bind_io (run_command h [''git'', ''rev-parse'', ''--verify'', branch_name] True True None)
          (\<lambda>_. return_io True))
       called_process_error
       (try_except
          (bind_io
             (run_command h [''git'', ''rev-parse'', ''--verify'', ''origin/'' @ branch_name]
                True True None)
             (\<lambda>_. return_io True))
          called_process_error
          (return_io False))"

text \<open>\<open>click.confirm(prompt)\<close>: the user's answer, and the prompt as an event.\<close>

definition confirm_io :: "host \<Rightarrow> string \<Rightarrow> bool io" where
  "confirm_io h prompt = (Inr (click_confirm h prompt), [Confirm prompt])"

text \<open>The loop \<open>for i in range(1, 100)\<close> of \<open>handle_branch_conflict\<close>: \<open>Some\<close> candidate
  where the source returns from inside the loop.\<close>

fun handle_branch_conflict_loop :: "host \<Rightarrow> string \<Rightarrow> nat list \<Rightarrow> string option io" where
  "handle_branch_conflict_loop h base_name [] = return_io None"
| "handle_branch_conflict_loop h base_name (i # rest) =
     (let candidate = base_name @ ''-'' @ str_nat i in
      bind_io (branch_exists h candidate)
        (\<lambda>ex. if \<not> ex then return_io (Some candidate)
              else handle_branch_conflict_loop h base_name rest))"

text \<open>\<open>handle_branch_conflict\<close>; \<open>now1\<close> and \<open>now2\<close> are the clock at its two readings.\<close>

definition handle_branch_conflict ::
  "host \<Rightarrow> datetime \<Rightarrow> datetime \<Rightarrow> string \<Rightarrow> (string \<times> bool) io" where
  "handle_branch_conflict h now1 now2 base_name =
     bind_io (branch_exists h base_name)
       (\<lambda>ex.
     if \<not> ex then return_io (base_name, False)
     else
     bind_io (confirm_io h ''Use existing branch?'')
       (\<lambda>use_existing.
     if use_existing then return_io (base_name, True)
     else
     let timestamp = strftime_HMS now1;
         candidate = base_name @ ''-'' @ timestamp
     in
     bind_io (branch_exists h candidate)
       (\<lambda>ex.
     if \<not> ex then return_io (candidate, False)
     else
     bind_io (handle_branch_conflict_loop h base_name [1..<100])
       (\<lambda>found.
     case found of
       Some candidate \<Rightarrow> return_io (candidate, False)
     | None \<Rightarrow> return_io (base_name @ ''-'' @ strftime_Ymd_HMS now2, False)))))"

definition create_worktree :: "host \<Rightarrow> path \<Rightarrow> string \<Rightarrow> string \<Rightarrow> bool \<Rightarrow> bool io" where
  "create_worktree h worktree_path branch_name base_branch is_existing_branch =
     try_except
       (bind_io
          (run_command_with_spinner h [''git'', ''fetch'', ''origin'']
             ''Fetching latest changes...'' True False None)
          (\<lambda>_.
        if is_existing_branch then
          bind_io
            (run_command_with_spinner h
               [''git'', ''worktree'', ''add'', path_str worktree_path, branch_name]
               (''Creating worktree from existing branch '' @ [squote] @ branch_name @ [squote]
                  @ ''...'')
               True True None)
            (\<lambda>_. return_io True)
        else
          bind_io
            (run_command_with_spinner h
               [''git'', ''worktree'', ''add'', ''-b'', branch_name, path_str worktree_path,
                base_branch]
               (''Creating worktree with new branch '' @ [squote] @ branch_name @ [squote]
                  @ ''...'')
               True True None)
            (\<lambda>_.
          bind_io
            (try_except
               (run_command_with_spinner h
                  [''git'', ''push'', ''--set-upstream'', ''origin'', branch_name]
                  (''Setting up upstream tracking for '' @ [squote] @ branch_name @ [squote]
                     @ ''...'')
                  True False (Some worktree_path))
               called_process_error
               (run_command_with_spinner h
                  [''git'', ''branch'', ''--set-upstream-to=origin/main'', branch_name]
                  ''Setting up local branch tracking...''
                  True False (Some worktree_path)))
            (\<lambda>_. return_io True))))
       called_process_error
       (return_io False)"


section \<open>The wording of the specification\<close>

text \<open>The AI tool invocation as the specification words it: the tool, the flag, and the
  task between single quotes, where each single quote of the task is replaced by the
  four characters quote, backslash, quote, quote. It is compared below with the strings
  that the two launchers pass to their commands.\<close>

definition spec_ai_invocation :: "string \<Rightarrow> string \<Rightarrow> string" where
  "spec_ai_invocation ai task =
     ai @ '' --dangerously-skip-permissions '' @ [squote]
       @ concat (map (\<lambda>c. if c = squote then [squote, backslash, squote, squote] else [c]) task)
       @ [squote]"

section \<open>Concrete settings and hosts\<close>

text \<open>The defaults of \<open>LetsSettings\<close>.\<close>

definition default_settings :: lets_settings where
  "default_settings =
     \<lparr>launcher = ''tmux'', ai_tool = ''claude'', editor_command = [], worktree_base_dir = [],
      copy_env_files = True, env_file_patterns = [''.env'', ''.env.local'', ''.env.development''],
      default_base_branch = [],
      launchers = \<lparr>tmux = \<lparr>session = ''dev'', auto_attach = True\<rparr>,
                   terminal = \<lparr>terminal_command = []\<rparr>\<rparr>\<rparr>"

text \<open>A host with \<open>git\<close> and nothing else installed, outside any repository: every
  \<open>git\<close> command exits with 1 and prints nothing, and the user answers no. Its paths are
  absolute, and resolving one splits it at the slashes.\<close>

definition bare_host :: host where
  "bare_host =
     \<lparr>can_start = (\<lambda>program. program = ''git''),
      subprocess_run = (\<lambda>cmd cwd. \<lparr>returncode = 1, stdout = []\<rparr>),
      shutil_which = (\<lambda>name. if name = ''git'' then Some ''/usr/bin/git'' else None),
      os_name = ''posix'',
      os_environ = (\<lambda>name. None),
      click_confirm = (\<lambda>prompt. False),
      path_resolve = (\<lambda>s. Path ''/'' (filter (\<lambda>w. w \<noteq> []) (split_char (CHR ''/'') s))),
      xdg_data_home = Path ''/'' [''home'', ''dev'', ''.local'', ''share'']\<rparr>"

text \<open>The bare host with one more program installed.\<close>

definition install :: "string \<Rightarrow> host \<Rightarrow> host" where
  "install program h =
     h\<lparr>can_start := (\<lambda>p. p = program \<or> can_start h p),
       shutil_which := (\<lambda>name. if name = program then Some (''/usr/bin/'' @ program)
                                 else shutil_which h name)\<rparr>"

text \<open>The bare host with \<open>LETS_WORKTREE_DIR\<close> set.\<close>

definition env_host :: host where
  "env_host =
     bare_host\<lparr>os_environ :=
       (\<lambda>name. if name = ''LETS_WORKTREE_DIR'' then Some ''/srv/trees'' else None)\<rparr>"

text \<open>A reading of the clock: 1 January 2024, 15:30:00.\<close>

definition clock_153000 :: datetime where
  "clock_153000 = \<lparr>year = 2024, month = 1, day = 1, hour = 15, minute = 30, second = 0\<rparr>"

text \<open>A host with an AI tool \<open>claude\<close> that prints two lines.\<close>

definition ai_host :: host where
  "ai_host =
     (install ''claude'' bare_host)\<lparr>subprocess_run :=
       (\<lambda>cmd cwd. if take 1 cmd = [''claude'']
                  then \<lparr>returncode = 0,
                        stdout = ''Sure!'' @ [newline] @ ''Fix-Login_Bug'' @ [newline]\<rparr>
                  else \<lparr>returncode = 1, stdout = []\<rparr>)\<rparr>"

text \<open>A host with an AI tool \<open>claude\<close> that exits with 1 and prints nothing.\<close>

definition quiet_ai_host :: host where
  "quiet_ai_host = install ''claude'' bare_host"

text \<open>A repository in which \<open>feature\<close> and \<open>feature-153000\<close> are local branches and
  no other ref verifies; the user answers no.\<close>

definition feature_host :: host where
  "feature_host =
     bare_host\<lparr>subprocess_run :=
       (\<lambda>cmd cwd.
          if cmd = [''git'', ''rev-parse'', ''--verify'', ''feature'']
             \<or> cmd = [''git'', ''rev-parse'', ''--verify'', ''feature-153000'']
          then \<lparr>returncode = 0, stdout = ''4b825dc642cb6eb9a060e54bf8d69288fbee4904'' @ [newline]\<rparr>
          else \<lparr>returncode = 128, stdout = []\<rparr>)\<rparr>"

text \<open>A host on which every command succeeds but \<open>git push\<close>, which exits with 1.\<close>

definition push_fails_host :: host where
  "push_fails_host =
     bare_host\<lparr>subprocess_run :=
       (\<lambda>cmd cwd. if take 2 cmd = [''git'', ''push'']
                  then \<lparr>returncode = 1, stdout = []\<rparr>
                  else \<lparr>returncode = 0, stdout = []\<rparr>)\<rparr>"

text \<open>A host with \<open>tmux\<close> installed on which every command exits with 1: no session
  exists, and none can be created.\<close>

definition tmux_fails_host :: host where
  "tmux_fails_host = install ''tmux'' bare_host"

text \<open>A host with \<open>tmux\<close> installed on which every command succeeds and prints nothing.\<close>

definition tmux_works_host :: host where
  "tmux_works_host =
     tmux_fails_host\<lparr>subprocess_run := (\<lambda>cmd cwd. \<lparr>returncode = 0, stdout = []\<rparr>)\<rparr>"

text \<open>A Linux host with \<open>gnome-terminal\<close> installed and no editor, on which every command
  succeeds and prints nothing.\<close>

definition gnome_host :: host where
  "gnome_host =
     (install ''gnome-terminal'' bare_host)\<lparr>subprocess_run :=
       (\<lambda>cmd cwd. \<lparr>returncode = 0, stdout = []\<rparr>)\<rparr>"


section \<open>Verified properties\<close>

subsection \<open>The launcher registry\<close>

lemma get_launcher_tmux: "get_launcher ''tmux'' settings = Inr (TmuxLauncher settings)"
  by (simp add: get_launcher_def launchers_dict_def)

lemma get_launcher_terminal: "get_launcher ''terminal'' settings = Inr (TerminalLauncher settings)"
  by (simp add: get_launcher_def launchers_dict_def)

lemma get_launcher_unknown:
  "launcher_name \<noteq> ''tmux'' \<Longrightarrow> launcher_name \<noteq> ''terminal'' \<Longrightarrow>
   get_launcher launcher_name settings =
     Inl (ValueError (''Unknown launcher: '' @ launcher_name @ ''. Available: ''
                       @ repr_list [''tmux'', ''terminal'']))"
  by (simp add: get_launcher_def launchers_dict_def)

lemma get_launcher_Inr_iff:
  "get_launcher n settings = Inr l \<longleftrightarrow>
     (n = ''tmux'' \<and> l = TmuxLauncher settings) \<or> (n = ''terminal'' \<and> l = TerminalLauncher settings)"
  by (auto simp: get_launcher_def launchers_dict_def)

text \<open>
  Claim C8. For a launcher identifier that is neither \<open>tmux\<close> nor \<open>terminal\<close>,
  \<open>get_launcher\<close> raises \<open>ValueError\<close>, and the message ends with the list of the valid
  identifiers, printed as \<open>['tmux', 'terminal']\<close>. For each of the two registered
  identifiers it returns the launcher of that class, built on the settings, and raises
  nothing.
\<close>

theorem get_launcher_registry:
  "(launcher_name \<notin> {''tmux'', ''terminal''} \<longrightarrow>
      get_launcher launcher_name settings =
        Inl (ValueError (''Unknown launcher: '' @ launcher_name @ ''. Available: ''
                          @ repr_list [''tmux'', ''terminal''])))
   \<and> repr_list [''tmux'', ''terminal''] = ''['tmux', 'terminal']''
   \<and> get_launcher ''tmux'' settings = Inr (TmuxLauncher settings)
   \<and> get_launcher ''terminal'' settings = Inr (TerminalLauncher settings)"
  by (simp add: get_launcher_def launchers_dict_def repr_list_def repr_str_def squote_def)

theorem get_launcher_registry_witness:
  "''vscode'' \<notin> {''tmux'', ''terminal''}
   \<and> get_launcher ''vscode'' default_settings =
        Inl (ValueError ''Unknown launcher: vscode. Available: ['tmux', 'terminal']'')
   \<and> get_launcher ''tmux'' default_settings = Inr (TmuxLauncher default_settings)"
  using get_launcher_registry [of "''vscode''" default_settings] by simp

lemma get_available_launchers_eq:
  "get_available_launchers h settings =
     Inr ((if is_available h (TmuxLauncher settings) then [''tmux''] else [])
          @ (if is_available h (TerminalLauncher settings) then [''terminal''] else []))"
  by (simp add: get_available_launchers_def get_launcher_tmux get_launcher_terminal)

lemma get_best_available_launcher_loop_eq:
  "get_best_available_launcher_loop h settings [''tmux'', ''terminal''] =
     Inr (if is_available h (TmuxLauncher settings) then ''tmux'' else ''terminal'')"
  by (simp add: get_launcher_tmux get_launcher_terminal)

text \<open>
  Claim C5. For every preferred identifier \<open>launcher settings\<close>, registered or not, and
  every host, \<open>get_best_available_launcher\<close> returns a value and raises nothing. With
  \<open>available\<close> the list that \<open>get_available_launchers\<close> returns, which holds the
  registered identifiers whose launcher reports available, in the order tmux, terminal:
  the result is the preferred identifier when it is in that list, otherwise the first
  element of the list, and \<open>terminal\<close> when the list is empty.
\<close>

theorem get_best_available_launcher_never_raises:
  "\<exists>available.
     get_available_launchers h settings = Inr available
     \<and> set available = {n. \<exists>l. get_launcher n settings = Inr l \<and> is_available h l}
     \<and> available = filter (\<lambda>n. n \<in> set available) [''tmux'', ''terminal'']
     \<and> get_best_available_launcher h settings project_path =
         Inr (if launcher settings \<in> set available then launcher settings
              else (case available of [] \<Rightarrow> ''terminal'' | first # rest \<Rightarrow> first))"
proof -
  let ?tm = "is_available h (TmuxLauncher settings)"
  let ?te = "is_available h (TerminalLauncher settings)"
  let ?av = "(if ?tm then [''tmux''] else []) @ (if ?te then [''terminal''] else [])"
  have a: "get_available_launchers h settings = Inr ?av"
    by (rule get_available_launchers_eq)
  have b: "set ?av = {n. \<exists>l. get_launcher n settings = Inr l \<and> is_available h l}"
    by (auto simp: get_launcher_Inr_iff simp del: is_available.simps)
  have c: "?av = filter (\<lambda>n. n \<in> set ?av) [''tmux'', ''terminal'']"
    by simp
  have d: "get_best_available_launcher h settings project_path =
         Inr (if launcher settings \<in> set ?av then launcher settings
              else (case ?av of [] \<Rightarrow> ''terminal'' | first # rest \<Rightarrow> first))"
  proof (cases "launcher settings = ''tmux''")
    case True
    then show ?thesis
      by (simp add: get_best_available_launcher_def get_launcher_tmux
            get_best_available_launcher_loop_eq
            del: get_best_available_launcher_loop.simps is_available.simps)
  next
    case nt: False
    show ?thesis
    proof (cases "launcher settings = ''terminal''")
      case True
      then show ?thesis
        by (simp add: get_best_available_launcher_def get_launcher_terminal
              get_best_available_launcher_loop_eq
              del: get_best_available_launcher_loop.simps is_available.simps)
    next
      case False
      with nt show ?thesis
        by (simp add: get_best_available_launcher_def get_launcher_unknown
              get_best_available_launcher_loop_eq
              del: get_best_available_launcher_loop.simps is_available.simps)
    qed
  qed
  from a b c d show ?thesis by blast
qed

theorem get_best_available_launcher_never_raises_witness:
  "get_available_launchers bare_host (default_settings\<lparr>launcher := ''vscode''\<rparr>) = Inr []
   \<and> get_best_available_launcher bare_host (default_settings\<lparr>launcher := ''vscode''\<rparr>)
         (Path ''/'' [''repo''])
       = Inr ''terminal''"
  using get_best_available_launcher_never_raises
    [of bare_host "default_settings\<lparr>launcher := ''vscode''\<rparr>" "Path ''/'' [''repo'']"]
  by (auto simp: get_available_launchers_eq bare_host_def)

subsection \<open>The command line for the AI tool\<close>

lemma str_replace_char:
  "str_replace [q] new s = concat (map (\<lambda>c. if c = q then new else [c]) s)"
  by (induction s) simp_all

lemma snd_run_command: "snd (run_command h cmd capture_output check cwd) = [Ran cmd cwd]"
  by (simp add: run_command_def Let_def split: list.splits)

lemma bind_io_InrD:
  assumes "fst (bind_io m f) = Inr y"
  shows "\<exists>x tr. m = (Inr x, tr) \<and> fst (f x) = Inr y \<and> snd (bind_io m f) = tr @ snd (f x)"
proof (cases m)
  case (Pair r tr)
  show ?thesis
  proof (cases r)
    case (Inl e)
    with Pair assms show ?thesis by (simp add: bind_io_def)
  next
    case (Inr x)
    with Pair assms show ?thesis
      by (cases "f x") (simp add: bind_io_def)
  qed
qed

lemma bind_run_command_InrD:
  assumes "fst (bind_io (run_command h cmd capture_output check cwd) (\<lambda>_. rest)) = Inr y"
  shows "fst rest = Inr y
         \<and> snd (bind_io (run_command h cmd capture_output check cwd) (\<lambda>_. rest))
             = Ran cmd cwd # snd rest"
proof -
  from bind_io_InrD [OF assms] obtain x tr where
    m: "run_command h cmd capture_output check cwd = (Inr x, tr)"
    and r: "fst rest = Inr y"
    and s: "snd (bind_io (run_command h cmd capture_output check cwd) (\<lambda>_. rest)) = tr @ snd rest"
    by blast
  from m snd_run_command [of h cmd capture_output check cwd] have "tr = [Ran cmd cwd]"
    by simp
  with r s show ?thesis by simp
qed

lemma snd_bind_io_prefix: "\<exists>rest. snd (bind_io m f) = snd m @ rest"
proof (cases m)
  case (Pair r tr)
  then show ?thesis
    by (cases r; cases "f (projr r)") (auto simp: bind_io_def)
qed

lemma snd_try_except_prefix: "\<exists>rest. snd (try_except m caught handler) = snd m @ rest"
proof (cases m)
  case (Pair r tr)
  then show ?thesis
    by (cases r; cases handler) (auto simp: try_except_def)
qed

lemma snd_bind_run_command_unit:
  "snd (bind_io (run_command h cmd capture_output check cwd) (\<lambda>_. return_io ())) = [Ran cmd cwd]"
proof -
  obtain r tr where m: "run_command h cmd capture_output check cwd = (r, tr)"
    by (cases "run_command h cmd capture_output check cwd")
  with snd_run_command [of h cmd capture_output check cwd] have "tr = [Ran cmd cwd]"
    by simp
  with m show ?thesis
    by (cases r) (simp_all add: bind_io_def return_io_def)
qed

text \<open>The terminal launcher, when it is available, begins with the events of
  \<open>_open_terminal_with_command\<close>, called with the invocation of the specification.\<close>

lemma terminal_setup_workspace_begins:
  assumes "is_available h (TerminalLauncher settings)"
  shows "\<exists>rest. snd (terminal_setup_workspace h settings worktree_path branch_name task ai)
           = snd (open_terminal_with_command h worktree_path (spec_ai_invocation ai task)) @ rest"
proof -
  let ?open = "open_terminal_with_command h worktree_path (spec_ai_invocation ai task)"
  let ?body = "bind_io ?open
                 (\<lambda>_. bind_io (open_editor h settings worktree_path) (\<lambda>_. return_io True))"
  have unfold: "terminal_setup_workspace h settings worktree_path branch_name task ai
                  = try_except ?body called_process_error (return_io False)"
    using assms
    by (simp add: terminal_setup_workspace_def Let_def spec_ai_invocation_def str_replace_char
          del: is_available.simps)
  obtain r1 where a: "snd (try_except ?body called_process_error (return_io False))
                        = snd ?body @ r1"
    using snd_try_except_prefix by blast
  obtain r2 where b: "snd ?body = snd ?open @ r2"
    using snd_bind_io_prefix by blast
  from a b have "snd (terminal_setup_workspace h settings worktree_path branch_name task ai)
                   = snd ?open @ (r2 @ r1)"
    by (simp only: unfold append_assoc)
  then show ?thesis ..
qed

text \<open>When \<open>tmux\<close> is found and starts and every command exits with 0, the tmux launcher
  returns \<open>True\<close>: the hypothesis of the first part of the theorem below can be met for
  every task, tool, branch and path.\<close>

lemma tmux_setup_workspace_succeeds:
  assumes "shutil_which h ''tmux'' \<noteq> None" and "can_start h ''tmux''"
    and "\<And>cmd cwd. returncode (subprocess_run h cmd cwd) = 0"
  shows "fst (tmux_setup_workspace h settings worktree_path branch_name task ai) = Inr True"
proof -
  obtain i tr where "get_pane_base_index h = (Inr i, tr)"
    using assms(2,3)
    by (cases "get_pane_base_index h")
       (auto simp: get_pane_base_index_def run_command_def Let_def
          split: list.splits option.splits if_splits)
  with assms show ?thesis
    by (simp add: tmux_setup_workspace_def run_command_def bind_io_def try_except_def
          return_io_def Let_def)
qed

text \<open>
  Claim C6. For every task and AI tool, the string that each launcher passes on is the
  invocation as the specification words it: the tool, the flag
  \<open>--dangerously-skip-permissions\<close> and the task between single quotes, each single
  quote of the task replaced by quote, backslash, quote, quote.
  \<^item> Whenever \<open>TmuxLauncher.setup_workspace\<close> returns \<open>True\<close>, its last two commands are
    the \<open>send-keys\<close> that types this string and \<open>Enter\<close> into a pane, and the
    \<open>select-pane\<close> of that pane.
  \<^item> \<open>TerminalLauncher.setup_workspace\<close> starts with the command of the platform, and
    the string is in it: in the AppleScript given to \<open>osascript\<close>, before \<open>; exec bash\<close>
    for \<open>gnome-terminal\<close>, between \<open>cd\<close> and \<open>exec bash\<close> for \<open>xterm\<close>, and as the
    last argument of \<open>wt\<close>.
  \<^item> The task \<open>Fix 'auth' issue\<close> for the tool \<open>claude\<close> gives
    \<open>claude --dangerously-skip-permissions 'Fix '\''auth'\'' issue'\<close>: the tmux launcher
    types it into the pane \<open>dev:fix-auth.1\<close>, and on a host with \<open>gnome-terminal\<close> the
    terminal launcher runs it in \<open>bash -c\<close>.
\<close>

theorem launchers_pass_ai_invocation:
  "(fst (tmux_setup_workspace h settings worktree_path branch_name task ai) = Inr True
      \<longrightarrow> (\<exists>events target.
             snd (tmux_setup_workspace h settings worktree_path branch_name task ai)
               = events @ [Ran [''tmux'', ''send-keys'', ''-t'', target,
                                spec_ai_invocation ai task, ''Enter''] None,
                           Ran [''tmux'', ''select-pane'', ''-t'', target] None]))
   \<and> (os_name h = ''posix'' \<and> truthy (shutil_which h ''open'')
      \<longrightarrow> (\<exists>rest.
             snd (terminal_setup_workspace h settings worktree_path branch_name task ai)
               = Ran [''osascript'', ''-e'',
                      apple_script worktree_path (spec_ai_invocation ai task)] None # rest))
   \<and> (os_name h = ''posix'' \<and> \<not> truthy (shutil_which h ''open'')
        \<and> truthy (shutil_which h ''gnome-terminal'')
      \<longrightarrow> (\<exists>rest.
             snd (terminal_setup_workspace h settings worktree_path branch_name task ai)
               = Ran [''gnome-terminal'', ''--working-directory'', path_str worktree_path,
                      ''--'', ''bash'', ''-c'', spec_ai_invocation ai task @ ''; exec bash'']
                   None # rest))
   \<and> (os_name h = ''posix'' \<and> \<not> truthy (shutil_which h ''open'')
        \<and> \<not> truthy (shutil_which h ''gnome-terminal'') \<and> truthy (shutil_which h ''xterm'')
      \<longrightarrow> (\<exists>rest.
             snd (terminal_setup_workspace h settings worktree_path branch_name task ai)
               = Ran [''xterm'', ''-e'',
                      ''cd '' @ [squote] @ path_str worktree_path @ [squote] @ '' && ''
                        @ spec_ai_invocation ai task @ '' && exec bash''] None # rest))
   \<and> (os_name h = ''nt'' \<and> truthy (shutil_which h ''wt'')
      \<longrightarrow> (\<exists>rest.
             snd (terminal_setup_workspace h settings worktree_path branch_name task ai)
               = Ran [''wt'', ''new-tab'', ''--startingDirectory'', path_str worktree_path,
                      ''cmd'', ''/k'', spec_ai_invocation ai task] None # rest))
   \<and> spec_ai_invocation ''claude'' ''Fix 'auth' issue''
       = ''claude --dangerously-skip-permissions 'Fix '' @ [squote, backslash, squote, squote]
         @ ''auth'' @ [squote, backslash, squote, squote] @ '' issue'' @ [squote]
   \<and> snd (tmux_setup_workspace tmux_works_host default_settings (Path ''/'' [''wt''])
            ''fix-auth'' ''Fix 'auth' issue'' ''claude'') ! 5
       = Ran [''tmux'', ''send-keys'', ''-t'', ''dev:fix-auth.1'',
              ''claude --dangerously-skip-permissions 'Fix ''
                @ [squote, backslash, squote, squote] @ ''auth''
                @ [squote, backslash, squote, squote] @ '' issue'' @ [squote],
              ''Enter''] None
   \<and> snd (terminal_setup_workspace gnome_host default_settings (Path ''/'' [''wt''])
            ''fix-auth'' ''Fix 'auth' issue'' ''claude'')
       = [Ran [''gnome-terminal'', ''--working-directory'', ''/wt'', ''--'', ''bash'', ''-c'',
               ''claude --dangerously-skip-permissions 'Fix ''
                 @ [squote, backslash, squote, squote] @ ''auth''
                 @ [squote, backslash, squote, squote] @ '' issue'' @ [squote]
                 @ ''; exec bash''] None]"
proof (intro conjI impI)
  assume ok: "fst (tmux_setup_workspace h settings worktree_path branch_name task ai) = Inr True"
  have avail: "is_available h (TmuxLauncher settings)"
    using ok by (rule_tac ccontr) (simp add: tmux_setup_workspace_def return_io_def)
  define sess where "sess = session (tmux (launchers settings))"
  define target where
    "target = (\<lambda>base::int. sess @ '':'' @ branch_name @ ''.'' @ str_int (base + 1))"
  define keys where
    "keys = (\<lambda>base. [''tmux'', ''send-keys'', ''-t'', target base, spec_ai_invocation ai task,
                      ''Enter''])"
  define pane where "pane = (\<lambda>base. [''tmux'', ''select-pane'', ''-t'', target base])"
  define split where
    "split = [''tmux'', ''split-window'', ''-t'', sess @ '':'' @ branch_name, ''-h'', ''-c'',
              path_str worktree_path]"
  define editor where
    "editor = (if editor_command settings \<noteq> [] then editor_command settings
               else (case os_environ h ''EDITOR'' of None \<Rightarrow> ''vim'' | Some e \<Rightarrow> e))"
  define edit where
    "edit = (\<lambda>base::int. [''tmux'', ''send-keys'', ''-t'',
               sess @ '':'' @ branch_name @ ''.'' @ str_int base, editor, ''Enter''])"
  define panes where
    "panes = (\<lambda>base.
       bind_io (run_command h split False True None)
         (\<lambda>_. bind_io (run_command h (edit base) False True None)
         (\<lambda>_. bind_io (run_command h (keys base) False True None)
         (\<lambda>_. bind_io (run_command h (pane base) False True None)
         (\<lambda>_. return_io True)))))"
  define probe where
    "probe = try_except
               (bind_io (run_command h [''tmux'', ''has-session'', ''-t'', sess] True True None)
                  (\<lambda>_. return_io True))
               called_process_error
               (return_io False)"
  define window where
    "window = (\<lambda>session_exists.
       if \<not> session_exists then
         run_command h [''tmux'', ''new-session'', ''-d'', ''-s'', sess, ''-n'', branch_name,
           ''-c'', path_str worktree_path] False True None
       else
         run_command h [''tmux'', ''new-window'', ''-t'', sess @ '':'', ''-n'', branch_name,
           ''-c'', path_str worktree_path] False True None)"
  have whole: "tmux_setup_workspace h settings worktree_path branch_name task ai
                 = bind_io probe
                     (\<lambda>session_exists. bind_io (window session_exists)
                     (\<lambda>_. bind_io (get_pane_base_index h) panes))"
    unfolding panes_def probe_def window_def target_def keys_def pane_def split_def
      editor_def edit_def sess_def
    using avail
    by (simp add: tmux_setup_workspace_def Let_def spec_ai_invocation_def str_replace_char
          del: is_available.simps)
  have ok': "fst (bind_io probe
                    (\<lambda>session_exists. bind_io (window session_exists)
                    (\<lambda>_. bind_io (get_pane_base_index h) panes))) = Inr True"
    using ok by (simp only: whole)
  from bind_io_InrD [OF ok'] obtain session_exists tr1 where
    s1: "fst (bind_io (window session_exists)
               (\<lambda>_. bind_io (get_pane_base_index h) panes)) = Inr True"
    and t1': "snd (bind_io probe
                    (\<lambda>session_exists. bind_io (window session_exists)
                    (\<lambda>_. bind_io (get_pane_base_index h) panes)))
               = tr1 @ snd (bind_io (window session_exists)
                              (\<lambda>_. bind_io (get_pane_base_index h) panes))"
    by (elim exE conjE)
  have t1: "snd (tmux_setup_workspace h settings worktree_path branch_name task ai)
               = tr1 @ snd (bind_io (window session_exists)
                              (\<lambda>_. bind_io (get_pane_base_index h) panes))"
    using t1' by (simp only: whole)
  from bind_io_InrD [OF s1] obtain tr2 where
    s2: "fst (bind_io (get_pane_base_index h) panes) = Inr True"
    and t2: "snd (bind_io (window session_exists)
                    (\<lambda>_. bind_io (get_pane_base_index h) panes))
               = tr2 @ snd (bind_io (get_pane_base_index h) panes)"
    by (elim exE conjE)
  from bind_io_InrD [OF s2] obtain base tr3 where
    s3: "fst (panes base) = Inr True"
    and t3: "snd (bind_io (get_pane_base_index h) panes) = tr3 @ snd (panes base)"
    by (elim exE conjE)
  note p1 = bind_run_command_InrD [OF s3 [unfolded panes_def]]
  note p2 = bind_run_command_InrD [OF conjunct1 [OF p1]]
  note p3 = bind_run_command_InrD [OF conjunct1 [OF p2]]
  note p4 = bind_run_command_InrD [OF conjunct1 [OF p3]]
  have t4: "snd (panes base)
              = [Ran split None, Ran (edit base) None]
                @ [Ran (keys base) None, Ran (pane base) None]"
    unfolding panes_def
    using conjunct2 [OF p1] conjunct2 [OF p2] conjunct2 [OF p3] conjunct2 [OF p4]
    by (simp add: return_io_def)
  have "snd (tmux_setup_workspace h settings worktree_path branch_name task ai)
          = (tr1 @ tr2 @ tr3 @ [Ran split None, Ran (edit base) None])
            @ [Ran [''tmux'', ''send-keys'', ''-t'', target base, spec_ai_invocation ai task,
                    ''Enter''] None,
               Ran [''tmux'', ''select-pane'', ''-t'', target base] None]"
    using t1 t2 t3 t4 by (simp add: keys_def pane_def)
  then show "\<exists>events target.
             snd (tmux_setup_workspace h settings worktree_path branch_name task ai)
               = events @ [Ran [''tmux'', ''send-keys'', ''-t'', target,
                                spec_ai_invocation ai task, ''Enter''] None,
                           Ran [''tmux'', ''select-pane'', ''-t'', target] None]"
    by blast
next
  assume a: "os_name h = ''posix'' \<and> truthy (shutil_which h ''open'')"
  then have "is_available h (TerminalLauncher settings)" by simp
  from terminal_setup_workspace_begins [OF this, of worktree_path branch_name task ai] a
  show "\<exists>rest. snd (terminal_setup_workspace h settings worktree_path branch_name task ai)
               = Ran [''osascript'', ''-e'',
                      apple_script worktree_path (spec_ai_invocation ai task)] None # rest"
    by (simp add: open_terminal_with_command_def snd_bind_run_command_unit)
next
  assume a: "os_name h = ''posix'' \<and> \<not> truthy (shutil_which h ''open'')
        \<and> truthy (shutil_which h ''gnome-terminal'')"
  then have "is_available h (TerminalLauncher settings)" by simp
  from terminal_setup_workspace_begins [OF this, of worktree_path branch_name task ai] a
  show "\<exists>rest. snd (terminal_setup_workspace h settings worktree_path branch_name task ai)
               = Ran [''gnome-terminal'', ''--working-directory'', path_str worktree_path,
                      ''--'', ''bash'', ''-c'', spec_ai_invocation ai task @ ''; exec bash'']
                   None # rest"
    by (simp add: open_terminal_with_command_def snd_bind_run_command_unit)
next
  assume a: "os_name h = ''posix'' \<and> \<not> truthy (shutil_which h ''open'')
        \<and> \<not> truthy (shutil_which h ''gnome-terminal'') \<and> truthy (shutil_which h ''xterm'')"
  then have "is_available h (TerminalLauncher settings)" by simp
  from terminal_setup_workspace_begins [OF this, of worktree_path branch_name task ai] a
  show "\<exists>rest. snd (terminal_setup_workspace h settings worktree_path branch_name task ai)
               = Ran [''xterm'', ''-e'',
                      ''cd '' @ [squote] @ path_str worktree_path @ [squote] @ '' && ''
                        @ spec_ai_invocation ai task @ '' && exec bash''] None # rest"
    by (simp add: open_terminal_with_command_def snd_bind_run_command_unit)
next
  assume a: "os_name h = ''nt'' \<and> truthy (shutil_which h ''wt'')"
  then have "is_available h (TerminalLauncher settings)" by simp
  from terminal_setup_workspace_begins [OF this, of worktree_path branch_name task ai] a
  show "\<exists>rest. snd (terminal_setup_workspace h settings worktree_path branch_name task ai)
               = Ran [''wt'', ''new-tab'', ''--startingDirectory'', path_str worktree_path,
                      ''cmd'', ''/k'', spec_ai_invocation ai task] None # rest"
    by (simp add: open_terminal_with_command_def snd_bind_run_command_unit)
next
  show "spec_ai_invocation ''claude'' ''Fix 'auth' issue''
       = ''claude --dangerously-skip-permissions 'Fix '' @ [squote, backslash, squote, squote]
         @ ''auth'' @ [squote, backslash, squote, squote] @ '' issue'' @ [squote]"
    by (simp add: spec_ai_invocation_def squote_def backslash_def)
next
  show "snd (tmux_setup_workspace tmux_works_host default_settings (Path ''/'' [''wt''])
            ''fix-auth'' ''Fix 'auth' issue'' ''claude'') ! 5
       = Ran [''tmux'', ''send-keys'', ''-t'', ''dev:fix-auth.1'',
              ''claude --dangerously-skip-permissions 'Fix ''
                @ [squote, backslash, squote, squote] @ ''auth''
                @ [squote, backslash, squote, squote] @ '' issue'' @ [squote],
              ''Enter''] None"
    by code_simp
next
  show "snd (terminal_setup_workspace gnome_host default_settings (Path ''/'' [''wt''])
            ''fix-auth'' ''Fix 'auth' issue'' ''claude'')
       = [Ran [''gnome-terminal'', ''--working-directory'', ''/wt'', ''--'', ''bash'', ''-c'',
               ''claude --dangerously-skip-permissions 'Fix ''
                 @ [squote, backslash, squote, squote] @ ''auth''
                 @ [squote, backslash, squote, squote] @ '' issue'' @ [squote]
                 @ ''; exec bash''] None]"
    by code_simp
qed

theorem launchers_pass_ai_invocation_witness:
  "fst (tmux_setup_workspace tmux_works_host default_settings (Path ''/'' [''wt''])
         ''fix-auth'' ''Fix 'auth' issue'' ''claude'') = Inr True
   \<and> (\<exists>events.
         snd (tmux_setup_workspace tmux_works_host default_settings (Path ''/'' [''wt''])
                ''fix-auth'' ''Fix 'auth' issue'' ''claude'')
           = events @ [Ran [''tmux'', ''send-keys'', ''-t'', ''dev:fix-auth.1'',
                            spec_ai_invocation ''claude'' ''Fix 'auth' issue'', ''Enter''] None,
                       Ran [''tmux'', ''select-pane'', ''-t'', ''dev:fix-auth.1''] None])
   \<and> os_name gnome_host = ''posix'' \<and> \<not> truthy (shutil_which gnome_host ''open'')
   \<and> truthy (shutil_which gnome_host ''gnome-terminal'')
   \<and> (\<exists>rest.
         snd (terminal_setup_workspace gnome_host default_settings (Path ''/'' [''wt''])
                ''fix-auth'' ''Fix 'auth' issue'' ''claude'')
           = Ran [''gnome-terminal'', ''--working-directory'', ''/wt'', ''--'', ''bash'', ''-c'',
                  spec_ai_invocation ''claude'' ''Fix 'auth' issue'' @ ''; exec bash''] None
             # rest)"
proof -
  let ?run = "tmux_setup_workspace tmux_works_host default_settings (Path ''/'' [''wt''])
                ''fix-auth'' ''Fix 'auth' issue'' ''claude''"
  note on_tmux = launchers_pass_ai_invocation
    [of tmux_works_host default_settings "Path ''/'' [''wt'']" "''fix-auth''"
        "''Fix 'auth' issue''" "''claude''"]
  note on_gnome = launchers_pass_ai_invocation
    [of gnome_host default_settings "Path ''/'' [''wt'']" "''fix-auth''"
        "''Fix 'auth' issue''" "''claude''"]
  have ok: "fst ?run = Inr True"
    by code_simp
  have pane: "snd ?run ! 6 = Ran [''tmux'', ''select-pane'', ''-t'', ''dev:fix-auth.1''] None"
    and len: "length (snd ?run) = 7"
    by code_simp+
  from on_tmux ok obtain events target where
    e: "snd ?run = events @ [Ran [''tmux'', ''send-keys'', ''-t'', target,
                                spec_ai_invocation ''claude'' ''Fix 'auth' issue'', ''Enter''] None,
                           Ran [''tmux'', ''select-pane'', ''-t'', target] None]"
    by blast
  from e len have "length events = 5" by simp
  with e have "snd ?run ! 6 = Ran [''tmux'', ''select-pane'', ''-t'', target] None"
    by (simp add: nth_append)
  with pane have "target = ''dev:fix-auth.1''" by simp
  with e have tm: "\<exists>events. snd ?run
           = events @ [Ran [''tmux'', ''send-keys'', ''-t'', ''dev:fix-auth.1'',
                            spec_ai_invocation ''claude'' ''Fix 'auth' issue'', ''Enter''] None,
                       Ran [''tmux'', ''select-pane'', ''-t'', ''dev:fix-auth.1''] None]"
    by blast
  have g: "os_name gnome_host = ''posix''" "\<not> truthy (shutil_which gnome_host ''open'')"
    "truthy (shutil_which gnome_host ''gnome-terminal'')"
    by (simp_all add: gnome_host_def install_def bare_host_def)
  have p: "path_str (Path ''/'' [''wt'']) = ''/wt''"
    by (simp add: path_str_def)
  from on_gnome g p have te: "\<exists>rest.
         snd (terminal_setup_workspace gnome_host default_settings (Path ''/'' [''wt''])
                ''fix-auth'' ''Fix 'auth' issue'' ''claude'')
           = Ran [''gnome-terminal'', ''--working-directory'', ''/wt'', ''--'', ''bash'', ''-c'',
                  spec_ai_invocation ''claude'' ''Fix 'auth' issue'' @ ''; exec bash''] None
             # rest"
    by simp
  from ok tm g te show ?thesis by blast
qed

subsection \<open>The base directory of the worktrees\<close>

text \<open>
  Claim C9. \<open>get_worktree_base_dir\<close> has three levels. A custom directory that is given
  and not empty wins: the result is that directory, expanded and resolved. Otherwise, if
  the environment variable \<open>LETS_WORKTREE_DIR\<close> is set and not empty, the result is its
  value, expanded and resolved. Otherwise the result is \<open>xdg_data_home() / "lets" /
  "worktrees"\<close>.
\<close>

theorem get_worktree_base_dir_precedence:
  "(custom_dir = Some d \<and> d \<noteq> [] \<longrightarrow> get_worktree_base_dir h custom_dir = path_resolve h d)
   \<and> ((custom_dir = None \<or> custom_dir = Some [])
        \<and> os_environ h ''LETS_WORKTREE_DIR'' = Some e \<and> e \<noteq> []
      \<longrightarrow> get_worktree_base_dir h custom_dir = path_resolve h e)
   \<and> ((custom_dir = None \<or> custom_dir = Some [])
        \<and> (os_environ h ''LETS_WORKTREE_DIR'' = None \<or> os_environ h ''LETS_WORKTREE_DIR'' = Some [])
      \<longrightarrow> get_worktree_base_dir h custom_dir
            = joinpath (joinpath (xdg_data_home h) ''lets'') ''worktrees'')"
  by (auto simp: get_worktree_base_dir_def)

theorem get_worktree_base_dir_precedence_witness:
  "get_worktree_base_dir env_host (Some ''/tmp/wt'') = Path ''/'' [''tmp'', ''wt'']
   \<and> get_worktree_base_dir env_host (Some []) = Path ''/'' [''srv'', ''trees'']
   \<and> get_worktree_base_dir bare_host None
       = Path ''/'' [''home'', ''dev'', ''.local'', ''share'', ''lets'', ''worktrees'']
   \<and> path_str (get_worktree_base_dir bare_host None) = ''/home/dev/.local/share/lets/worktrees''"
  using get_worktree_base_dir_precedence [of "Some ''/tmp/wt''" "''/tmp/wt''" env_host]
        get_worktree_base_dir_precedence [of "Some []" _ env_host "''/srv/trees''"]
        get_worktree_base_dir_precedence [of None _ bare_host]
  by (simp add: env_host_def bare_host_def joinpath_def path_str_def)

subsection \<open>Generated branch names\<close>

lemma takeWhile_nonempty_iff: "takeWhile P xs \<noteq> [] \<longleftrightarrow> xs \<noteq> [] \<and> P (hd xs)"
  by (cases xs) auto

lemma search_issue_None_iff: "search_issue t = None \<longleftrightarrow> \<not> has_issue_ref t"
proof (induction t)
  case Nil
  then show ?case by simp
next
  case (Cons c cs)
  then show ?case
    by (cases cs) (auto simp: takeWhile_nonempty_iff)
qed

lemma has_issue_ref_tail: "\<not> has_issue_ref (c # cs) \<Longrightarrow> \<not> has_issue_ref cs"
  by (cases cs) auto

lemma not_digit_hash: "\<not> is_digit (CHR ''#'')"
  by (simp add: is_digit_def)

lemma search_issue_first_match:
  assumes "\<not> has_issue_ref pre" and "digits \<noteq> []" and "list_all is_digit digits"
    and "post \<noteq> [] \<longrightarrow> \<not> is_digit (hd post)"
  shows "search_issue (pre @ [CHR ''#''] @ digits @ post) = Some digits"
  using assms(1)
proof (induction pre)
  case Nil
  have "takeWhile is_digit (digits @ post) = digits"
    using assms(3,4) by (cases post) (auto simp: list_all_iff takeWhile_append2 takeWhile_eq_Nil_iff)
  with assms(2) show ?case by simp
next
  case (Cons c pre)
  have tail: "\<not> has_issue_ref pre"
    using Cons.prems by (rule has_issue_ref_tail)
  have "\<not> (c = CHR ''#'' \<and> takeWhile is_digit (pre @ [CHR ''#''] @ digits @ post) \<noteq> [])"
  proof (cases pre)
    case Nil
    then show ?thesis by (simp add: not_digit_hash)
  next
    case (Cons d ds)
    with Cons.prems show ?thesis by auto
  qed
  with Cons.IH [OF tail] show ?case by auto
qed

lemma clean_branch_name_empty: "clean_branch_name [] = []"
  by (simp add: clean_branch_name_def strip_def lower_def)

lemma generate_branch_name_value:
  assumes "can_start h ai"
  shows "generate_branch_name h now task ai verbose =
     (let cleaned = clean_branch_name
            (strip (stdout (subprocess_run h [ai, ''-p'', branch_name_prompt task] None)))
      in (Inr (if 3 \<le> length cleaned then cleaned
               else (case search_issue task of
                       Some digits \<Rightarrow> ''issue-'' @ digits
                     | None \<Rightarrow> ''task-'' @ strftime_Ymd_HMS now)),
          [Ran [ai, ''-p'', branch_name_prompt task] None]))"
proof -
  let ?out = "strip (stdout (subprocess_run h [ai, ''-p'', branch_name_prompt task] None))"
  have short: "?out = [] \<Longrightarrow> \<not> 3 \<le> length (clean_branch_name ?out)"
    by (simp add: clean_branch_name_empty)
  show ?thesis
    using short assms
    by (auto simp: generate_branch_name_def run_command_with_spinner_def run_command_def
          bind_io_def try_except_def return_io_def Let_def split: option.splits)
qed

text \<open>When the AI tool cannot be started, the \<open>FileNotFoundError\<close> of \<open>subprocess.run\<close>
  is not a \<open>CalledProcessError\<close>: the handler does not catch it and no fallback runs.\<close>

lemma generate_branch_name_not_started:
  assumes "\<not> can_start h ai"
  shows "generate_branch_name h now task ai verbose =
           (Inl (FileNotFoundError ai), [Ran [ai, ''-p'', branch_name_prompt task] None])"
  using assms
  by (simp add: generate_branch_name_def run_command_with_spinner_def run_command_def
        bind_io_def try_except_def return_io_def Let_def)

text \<open>The order of the fallbacks, for an AI tool that starts: the cleaned output when it
  has at least 3 characters, else \<open>issue-\<close> and the digits of the first \<open>#\<close> before a
  digit, else \<open>task-\<close> and the clock.\<close>

lemma generate_branch_name_when_started:
  assumes "can_start h ai"
    and "cleaned = clean_branch_name
             (strip (stdout (subprocess_run h [ai, ''-p'', branch_name_prompt task] None)))"
  shows "\<exists>name.
     fst (generate_branch_name h now task ai verbose) = Inr name
     \<and> name \<noteq> []
     \<and> (3 \<le> length cleaned \<longrightarrow> name = cleaned)
     \<and> (length cleaned < 3 \<and> task = pre @ [CHR ''#''] @ digits @ post
          \<and> \<not> has_issue_ref pre \<and> digits \<noteq> [] \<and> list_all is_digit digits
          \<and> (post \<noteq> [] \<longrightarrow> \<not> is_digit (hd post))
        \<longrightarrow> name = ''issue-'' @ digits)
     \<and> (length cleaned < 3 \<and> \<not> has_issue_ref task
        \<longrightarrow> name = ''task-'' @ strftime_Ymd_HMS now)"
proof -
  let ?name = "if 3 \<le> length cleaned then cleaned
               else (case search_issue task of
                       Some digits \<Rightarrow> ''issue-'' @ digits
                     | None \<Rightarrow> ''task-'' @ strftime_Ymd_HMS now)"
  have val: "fst (generate_branch_name h now task ai verbose) = Inr ?name"
    by (simp add: generate_branch_name_value [OF assms(1)] assms(2) Let_def)
  have nonempty: "?name \<noteq> []"
    by (auto split: option.splits)
  have first: "3 \<le> length cleaned \<longrightarrow> ?name = cleaned"
    by simp
  have issue: "length cleaned < 3 \<and> task = pre @ [CHR ''#''] @ digits @ post
          \<and> \<not> has_issue_ref pre \<and> digits \<noteq> [] \<and> list_all is_digit digits
          \<and> (post \<noteq> [] \<longrightarrow> \<not> is_digit (hd post))
        \<longrightarrow> ?name = ''issue-'' @ digits"
    using search_issue_first_match [of pre digits post] by auto
  have stamp: "length cleaned < 3 \<and> \<not> has_issue_ref task
        \<longrightarrow> ?name = ''task-'' @ strftime_Ymd_HMS now"
    using search_issue_None_iff [of task] by auto
  from val nonempty first issue stamp show ?thesis by blast
qed

lemma strftime_clock_153000:
  "strftime_HMS clock_153000 = ''153000''"
  "strftime_Ymd_HMS clock_153000 = ''20240101-153000''"
  by code_simp+

lemma generate_branch_name_examples:
  "fst (generate_branch_name ai_host clock_153000 ''Fix the login bug'' ''claude'' False)
     = Inr ''fix-loginbug''"
  "fst (generate_branch_name quiet_ai_host clock_153000 ''Fix issue #123 now'' ''claude'' False)
     = Inr ''issue-123''"
  "fst (generate_branch_name quiet_ai_host clock_153000 ''Refactor auth'' ''claude'' True)
     = Inr ''task-20240101-153000''"
  by code_simp+

text \<open>
  Claim C10, at a failing input. The AI tool \<open>claude\<close> is not installed, and the task
  names the issue \<open>#123\<close>. \<open>generate_branch_name\<close> does not return \<open>issue-123\<close>, nor
  any other name: the \<open>FileNotFoundError\<close> of the attempt to run \<open>claude\<close> leaves the
  function. Its handler is for \<open>CalledProcessError\<close> only, which the call, made without
  \<open>check\<close>, never raises.
\<close>

theorem generate_branch_name_tool_missing:
  "\<not> can_start bare_host ''claude''
   \<and> search_issue ''Fix issue #123 now'' = Some ''123''
   \<and> generate_branch_name bare_host clock_153000 ''Fix issue #123 now'' ''claude'' False
     = (Inl (FileNotFoundError ''claude''),
        [Ran [''claude'', ''-p'', branch_name_prompt ''Fix issue #123 now''] None])"
proof (intro conjI)
  show a: "\<not> can_start bare_host ''claude''"
    by (simp add: bare_host_def)
  show "search_issue ''Fix issue #123 now'' = Some ''123''"
    by code_simp
  show "generate_branch_name bare_host clock_153000 ''Fix issue #123 now'' ''claude'' False
     = (Inl (FileNotFoundError ''claude''),
        [Ran [''claude'', ''-p'', branch_name_prompt ''Fix issue #123 now''] None])"
    using a by (rule generate_branch_name_not_started)
qed

subsection \<open>Branch name conflicts\<close>

lemma branch_exists_eq:
  "can_start h ''git'' \<Longrightarrow>
   branch_exists h n =
     (let local = [''git'', ''rev-parse'', ''--verify'', n];
          remote = [''git'', ''rev-parse'', ''--verify'', ''origin/'' @ n]
      in if returncode (subprocess_run h local None) = 0 then (Inr True, [Ran local None])
         else if returncode (subprocess_run h remote None) = 0
           then (Inr True, [Ran local None, Ran remote None])
         else (Inr False, [Ran local None, Ran remote None]))"
  by (simp add: branch_exists_def run_command_def bind_io_def try_except_def return_io_def
        Let_def)

lemma branch_exists_not_started:
  "\<not> can_start h ''git'' \<Longrightarrow>
   branch_exists h n
     = (Inl (FileNotFoundError ''git''), [Ran [''git'', ''rev-parse'', ''--verify'', n] None])"
  by (simp add: branch_exists_def run_command_def bind_io_def try_except_def return_io_def)

lemma branch_exists_started: "fst (branch_exists h n) = Inr b \<Longrightarrow> can_start h ''git''"
  by (rule ccontr) (simp add: branch_exists_not_started)

lemma branch_exists_total: "can_start h ''git'' \<Longrightarrow> \<exists>b tr. branch_exists h n = (Inr b, tr)"
  by (auto simp: branch_exists_eq Let_def)

lemma branch_exists_cases:
  assumes "can_start h ''git''"
  obtains tr where "branch_exists h n = (Inr True, tr)"
  | tr where "branch_exists h n = (Inr False, tr)"
  using branch_exists_total [OF assms, of n] by (metis (full_types))

lemma handle_branch_conflict_loop_eq:
  assumes git: "can_start h ''git''"
  shows "handle_branch_conflict_loop h base_name numbers =
     (let candidates = map (\<lambda>i. base_name @ ''-'' @ str_nat i) numbers;
          free = (\<lambda>c. fst (branch_exists h c) = Inr False)
      in (Inr (find free candidates),
          concat (map (\<lambda>c. snd (branch_exists h c))
                    (takeWhile (\<lambda>c. \<not> free c) candidates
                     @ take 1 (dropWhile (\<lambda>c. \<not> free c) candidates)))))"
proof (induction numbers)
  case Nil
  then show ?case by (simp add: return_io_def)
next
  case (Cons i rest)
  show ?case
  proof (rule branch_exists_cases [OF git, of "base_name @ ''-'' @ str_nat i"])
    fix tr
    assume "branch_exists h (base_name @ ''-'' @ str_nat i) = (Inr True, tr)"
    with Cons show ?thesis
      by (simp add: bind_io_def Let_def)
  next
    fix tr
    assume "branch_exists h (base_name @ ''-'' @ str_nat i) = (Inr False, tr)"
    then show ?thesis
      by (simp add: bind_io_def return_io_def Let_def)
  qed
qed

lemma handle_branch_conflict_declined:
  assumes "fst (branch_exists h base_name) = Inr True"
    and "\<not> click_confirm h ''Use existing branch?''"
    and "candidates = (base_name @ ''-'' @ strftime_HMS now1)
                        # map (\<lambda>i. base_name @ ''-'' @ str_nat i) [1..<100]"
  shows "fst (handle_branch_conflict h now1 now2 base_name) =
           Inr (case find (\<lambda>c. fst (branch_exists h c) = Inr False) candidates of
                  Some c \<Rightarrow> (c, False)
                | None \<Rightarrow> (base_name @ ''-'' @ strftime_Ymd_HMS now2, False))
         \<and> snd (handle_branch_conflict h now1 now2 base_name) =
             snd (branch_exists h base_name) @ [Confirm ''Use existing branch?'']
             @ concat (map (\<lambda>c. snd (branch_exists h c))
                 (takeWhile (\<lambda>c. fst (branch_exists h c) \<noteq> Inr False) candidates
                  @ take 1 (dropWhile (\<lambda>c. fst (branch_exists h c) \<noteq> Inr False) candidates)))"
proof -
  obtain tr0 where base: "branch_exists h base_name = (Inr True, tr0)"
    using assms(1) by (cases "branch_exists h base_name") auto
  have git: "can_start h ''git''"
    using assms(1) by (rule branch_exists_started)
  let ?stamp = "base_name @ ''-'' @ strftime_HMS now1"
  show ?thesis
  proof (rule branch_exists_cases [OF git, of ?stamp])
    fix tr
    assume "branch_exists h ?stamp = (Inr False, tr)"
    with base assms(2,3) show ?thesis
      by (simp add: handle_branch_conflict_def confirm_io_def bind_io_def return_io_def Let_def)
  next
    fix tr
    assume "branch_exists h ?stamp = (Inr True, tr)"
    with base assms(2,3) show ?thesis
      by (simp add: handle_branch_conflict_def confirm_io_def bind_io_def return_io_def Let_def
            handle_branch_conflict_loop_eq [OF git] split: option.splits)
  qed
qed

text \<open>
  Claim C1. Let the desired name exist (the probe \<open>branch_exists\<close> answers yes) and let the
  user decline ``Use existing branch?''. The candidates are, in this order, the name
  with the clock as \<open>HHMMSS\<close>, then the name with \<open>-1\<close> up to \<open>-99\<close>.
  \<open>handle_branch_conflict\<close> returns the first candidate for which the probe answers no,
  with \<open>is_existing = False\<close>; if the probe answers yes for all of them, it returns the
  name with the clock as \<open>YYYYMMDD-HHMMSS\<close>, also with \<open>False\<close>. The events show the
  order: the probe of the desired name, the prompt, then the probes of the candidates one
  after the other up to the first free one, and nothing after that, so the last fallback
  is never probed. The witness is the scenario of the specification: \<open>feature\<close> and
  \<open>feature-153000\<close> exist, \<open>feature-1\<close> does not, and the result is
  \<open>(feature-1, False)\<close>.
\<close>

theorem handle_branch_conflict_candidates:
  assumes "fst (branch_exists h base_name) = Inr True"
    and "\<not> click_confirm h ''Use existing branch?''"
    and "candidates = (base_name @ ''-'' @ strftime_HMS now1)
                        # map (\<lambda>i. base_name @ ''-'' @ str_nat i) [1..<100]"
  shows "fst (handle_branch_conflict h now1 now2 base_name) =
           Inr (case find (\<lambda>c. fst (branch_exists h c) = Inr False) candidates of
                  Some c \<Rightarrow> (c, False)
                | None \<Rightarrow> (base_name @ ''-'' @ strftime_Ymd_HMS now2, False))
         \<and> snd (handle_branch_conflict h now1 now2 base_name) =
             snd (branch_exists h base_name) @ [Confirm ''Use existing branch?'']
             @ concat (map (\<lambda>c. snd (branch_exists h c))
                 (takeWhile (\<lambda>c. fst (branch_exists h c) \<noteq> Inr False) candidates
                  @ take 1 (dropWhile (\<lambda>c. fst (branch_exists h c) \<noteq> Inr False) candidates)))"
  using assms by (rule handle_branch_conflict_declined)

theorem handle_branch_conflict_candidates_witness:
  "fst (branch_exists feature_host ''feature'') = Inr True
   \<and> \<not> click_confirm feature_host ''Use existing branch?''
   \<and> fst (branch_exists feature_host ''feature-153000'') = Inr True
   \<and> fst (branch_exists feature_host ''feature-1'') = Inr False
   \<and> fst (handle_branch_conflict feature_host clock_153000 clock_153000 ''feature'')
       = Inr (''feature-1'', False)
   \<and> snd (handle_branch_conflict feature_host clock_153000 clock_153000 ''feature'')
       = [Ran [''git'', ''rev-parse'', ''--verify'', ''feature''] None,
          Confirm ''Use existing branch?'',
          Ran [''git'', ''rev-parse'', ''--verify'', ''feature-153000''] None,
          Ran [''git'', ''rev-parse'', ''--verify'', ''feature-1''] None,
          Ran [''git'', ''rev-parse'', ''--verify'', ''origin/feature-1''] None]"
proof -
  let ?candidates = "(''feature'' @ ''-'' @ strftime_HMS clock_153000)
                        # map (\<lambda>i. ''feature'' @ ''-'' @ str_nat i) [1..<100]"
  let ?taken = "\<lambda>c. fst (branch_exists feature_host c) \<noteq> Inr False"
  have a: "fst (branch_exists feature_host ''feature'') = Inr True"
    by code_simp
  have b: "\<not> click_confirm feature_host ''Use existing branch?''"
    by (simp add: feature_host_def bare_host_def)
  have c: "fst (branch_exists feature_host ''feature-153000'') = Inr True"
    by code_simp
  have d: "fst (branch_exists feature_host ''feature-1'') = Inr False"
    by code_simp
  have e: "find (\<lambda>c. fst (branch_exists feature_host c) = Inr False) ?candidates
             = Some ''feature-1''"
    by code_simp
  have f: "takeWhile ?taken ?candidates @ take 1 (dropWhile ?taken ?candidates)
             = [''feature-153000'', ''feature-1'']"
    by code_simp
  have g: "snd (branch_exists feature_host ''feature'')
             = [Ran [''git'', ''rev-parse'', ''--verify'', ''feature''] None]"
          "snd (branch_exists feature_host ''feature-153000'')
             = [Ran [''git'', ''rev-parse'', ''--verify'', ''feature-153000''] None]"
          "snd (branch_exists feature_host ''feature-1'')
             = [Ran [''git'', ''rev-parse'', ''--verify'', ''feature-1''] None,
                Ran [''git'', ''rev-parse'', ''--verify'', ''origin/feature-1''] None]"
    by code_simp+
  from handle_branch_conflict_candidates
         [of feature_host "''feature''" ?candidates clock_153000 clock_153000, OF a b refl]
  have "fst (handle_branch_conflict feature_host clock_153000 clock_153000 ''feature'')
          = Inr (''feature-1'', False)
        \<and> snd (handle_branch_conflict feature_host clock_153000 clock_153000 ''feature'')
          = snd (branch_exists feature_host ''feature'') @ [Confirm ''Use existing branch?'']
            @ concat (map (\<lambda>c. snd (branch_exists feature_host c))
                        [''feature-153000'', ''feature-1''])"
    unfolding e f by simp
  with a b c d g show ?thesis by simp
qed

text \<open>
  Claim C4. Let \<open>git\<close> start, and let \<open>git rev-parse --verify\<close> exit non-zero both for
  the desired name and for \<open>origin/\<close> and the name, so that the probe reports ``does not
  exist'' twice. The two failures are caught and read as ``not found'':
  \<open>handle_branch_conflict\<close> raises nothing and returns the desired name with
  \<open>is_existing = False\<close>. Its events are the two probes and no prompt.
\<close>

theorem handle_branch_conflict_free_name:
  assumes "can_start h ''git''"
    and "returncode (subprocess_run h [''git'', ''rev-parse'', ''--verify'', base_name] None) \<noteq> 0"
    and "returncode (subprocess_run h [''git'', ''rev-parse'', ''--verify'', ''origin/'' @ base_name]
           None) \<noteq> 0"
  shows "fst (handle_branch_conflict h now1 now2 base_name) = Inr (base_name, False)
         \<and> snd (handle_branch_conflict h now1 now2 base_name)
           = [Ran [''git'', ''rev-parse'', ''--verify'', base_name] None,
              Ran [''git'', ''rev-parse'', ''--verify'', ''origin/'' @ base_name] None]
         \<and> (\<forall>prompt. Confirm prompt \<notin> set (snd (handle_branch_conflict h now1 now2 base_name)))"
  using assms
  by (simp add: handle_branch_conflict_def branch_exists_eq bind_io_def return_io_def Let_def)

theorem handle_branch_conflict_free_name_witness:
  "can_start bare_host ''git''
   \<and> returncode (subprocess_run bare_host [''git'', ''rev-parse'', ''--verify'', ''fix-bug''] None) \<noteq> 0
   \<and> returncode (subprocess_run bare_host [''git'', ''rev-parse'', ''--verify'', ''origin/fix-bug'']
        None) \<noteq> 0
   \<and> handle_branch_conflict bare_host clock_153000 clock_153000 ''fix-bug''
       = (Inr (''fix-bug'', False),
          [Ran [''git'', ''rev-parse'', ''--verify'', ''fix-bug''] None,
           Ran [''git'', ''rev-parse'', ''--verify'', ''origin/fix-bug''] None])"
proof -
  have a: "returncode (subprocess_run bare_host [''git'', ''rev-parse'', ''--verify'', ''fix-bug'']
             None) \<noteq> 0"
    by (simp add: bare_host_def)
  have b: "returncode (subprocess_run bare_host
             [''git'', ''rev-parse'', ''--verify'', ''origin/'' @ ''fix-bug''] None) \<noteq> 0"
    by (simp add: bare_host_def)
  have g: "can_start bare_host ''git''"
    by (simp add: bare_host_def)
  from handle_branch_conflict_free_name [OF g a b, of clock_153000 clock_153000] g a b
  show ?thesis
    by (cases "handle_branch_conflict bare_host clock_153000 clock_153000 ''fix-bug''") simp
qed

subsection \<open>Creating the worktree\<close>

lemma create_worktree_new_branch:
  "can_start h ''git'' \<Longrightarrow>
   create_worktree h worktree_path branch_name base_branch False =
     (let fetch = [''git'', ''fetch'', ''origin''];
          add = [''git'', ''worktree'', ''add'', ''-b'', branch_name, path_str worktree_path,
                 base_branch];
          push = [''git'', ''push'', ''--set-upstream'', ''origin'', branch_name]
      in if returncode (subprocess_run h add None) \<noteq> 0
         then (Inr False, [Ran fetch None, Ran add None])
         else (Inr True, [Ran fetch None, Ran add None, Ran push (Some worktree_path)]))"
  by (simp add: create_worktree_def run_command_with_spinner_def run_command_def
        bind_io_def try_except_def return_io_def Let_def)

lemma create_worktree_not_started:
  "\<not> can_start h ''git'' \<Longrightarrow>
   create_worktree h worktree_path branch_name base_branch is_existing_branch
     = (Inl (FileNotFoundError ''git''), [Ran [''git'', ''fetch'', ''origin''] None])"
  by (simp add: create_worktree_def run_command_with_spinner_def run_command_def
        bind_io_def try_except_def return_io_def)

lemma create_worktree_never_sets_tracking:
  "Ran [''git'', ''branch'', ''--set-upstream-to=origin/main'', branch_name] cwd
     \<notin> set (snd (create_worktree h worktree_path branch_name base_branch False))"
  by (cases "can_start h ''git''")
     (simp_all add: create_worktree_new_branch create_worktree_not_started Let_def)

text \<open>
  Claim C7, at a failing input. A new branch \<open>fix-bug\<close> is created on a host where
  \<open>git\<close> starts and \<open>git push\<close> exits with 1. The push runs without \<open>check\<close>, so no
  \<open>CalledProcessError\<close> is raised and the handler that would run
  \<open>git branch --set-upstream-to=origin/main\<close> is not entered: \<open>create_worktree\<close>
  returns \<open>True\<close>, and its events are the fetch, the \<open>worktree add\<close> and the push,
  with no fallback command after them.
\<close>

theorem create_worktree_push_failure_no_fallback:
  "can_start push_fails_host ''git''
   \<and> returncode (subprocess_run push_fails_host
      [''git'', ''push'', ''--set-upstream'', ''origin'', ''fix-bug''] (Some (Path ''/'' [''wt''])))
     = 1
   \<and> create_worktree push_fails_host (Path ''/'' [''wt'']) ''fix-bug'' ''origin/develop'' False
     = (Inr True,
        [Ran [''git'', ''fetch'', ''origin''] None,
         Ran [''git'', ''worktree'', ''add'', ''-b'', ''fix-bug'', ''/wt'', ''origin/develop''] None,
         Ran [''git'', ''push'', ''--set-upstream'', ''origin'', ''fix-bug'']
           (Some (Path ''/'' [''wt'']))])"
  by (simp add: create_worktree_new_branch push_fails_host_def bare_host_def path_str_def)

subsection \<open>Setting up the workspace\<close>

lemma tmux_setup_workspace_new_session_fails:
  assumes "shutil_which h ''tmux'' \<noteq> None"
    and "can_start h ''tmux''"
    and "returncode (subprocess_run h
           [''tmux'', ''has-session'', ''-t'', session (tmux (launchers settings))] None) \<noteq> 0"
    and "new_session = [''tmux'', ''new-session'', ''-d'', ''-s'',
           session (tmux (launchers settings)), ''-n'', branch_name, ''-c'',
           path_str worktree_path]"
    and "returncode (subprocess_run h new_session None) \<noteq> 0"
  shows "fst (tmux_setup_workspace h settings worktree_path branch_name task ai)
           = Inl (CalledProcessError (returncode (subprocess_run h new_session None)) new_session)"
  using assms
  by (simp add: tmux_setup_workspace_def run_command_def bind_io_def try_except_def
        return_io_def Let_def)

text \<open>
  Claim C2, at a failing input. \<open>tmux\<close> is installed and starts, the session \<open>dev\<close> does not exist
  (\<open>has-session\<close> exits with 1) and \<open>new-session\<close> exits with 1 as well. The command
  runs with \<open>check\<close> and outside any handler, so \<open>TmuxLauncher.setup_workspace\<close> does
  not return \<open>False\<close>: the \<open>CalledProcessError\<close> of \<open>new-session\<close> leaves the function.
\<close>

theorem tmux_setup_workspace_raises:
  "is_available tmux_fails_host (TmuxLauncher default_settings)
   \<and> can_start tmux_fails_host ''tmux''
   \<and> tmux_setup_workspace tmux_fails_host default_settings (Path ''/'' [''wt'']) ''fix-bug''
       ''Fix the bug'' ''claude''
     = (Inl (CalledProcessError 1
              [''tmux'', ''new-session'', ''-d'', ''-s'', ''dev'', ''-n'', ''fix-bug'', ''-c'', ''/wt'']),
        [Ran [''tmux'', ''has-session'', ''-t'', ''dev''] None,
         Ran [''tmux'', ''new-session'', ''-d'', ''-s'', ''dev'', ''-n'', ''fix-bug'', ''-c'', ''/wt'']
           None])"
  by (simp add: tmux_setup_workspace_def tmux_fails_host_def install_def bare_host_def
        default_settings_def run_command_def bind_io_def try_except_def return_io_def
        path_str_def Let_def)

text \<open>The parts of the contract that the tmux launcher keeps: \<open>False\<close> without
  \<open>tmux\<close>, \<open>True\<close> when every command starts and succeeds. The terminal launcher
  catches \<open>CalledProcessError\<close>, which never leaves its \<open>setup_workspace\<close>.\<close>

lemma tmux_setup_workspace_unavailable:
  "shutil_which h ''tmux'' = None \<Longrightarrow>
   tmux_setup_workspace h settings worktree_path branch_name task ai = (Inr False, [])"
  by (simp add: tmux_setup_workspace_def return_io_def)

lemma tmux_setup_workspace_success:
  "tmux_setup_workspace tmux_works_host default_settings (Path ''/'' [''wt'']) ''fix-bug''
       ''Fix the bug'' ''claude''
     = (Inr True,
        [Ran [''tmux'', ''has-session'', ''-t'', ''dev''] None,
         Ran [''tmux'', ''new-window'', ''-t'', ''dev:'', ''-n'', ''fix-bug'', ''-c'', ''/wt''] None,
         Ran [''tmux'', ''show-option'', ''-g'', ''pane-base-index''] None,
         Ran [''tmux'', ''split-window'', ''-t'', ''dev:fix-bug'', ''-h'', ''-c'', ''/wt''] None,
         Ran [''tmux'', ''send-keys'', ''-t'', ''dev:fix-bug.0'', ''vim'', ''Enter''] None,
         Ran [''tmux'', ''send-keys'', ''-t'', ''dev:fix-bug.1'',
              spec_ai_invocation ''claude'' ''Fix the bug'', ''Enter''] None,
         Ran [''tmux'', ''select-pane'', ''-t'', ''dev:fix-bug.1''] None])"
  by code_simp

lemma try_except_catches:
  "fst (try_except m called_process_error (Inr x, tr)) \<noteq> Inl (CalledProcessError rc cmd)"
proof (cases m)
  case (Pair r tr')
  then show ?thesis
    by (cases r) (auto simp: try_except_def)
qed

lemma terminal_setup_workspace_catches:
  "fst (terminal_setup_workspace h settings worktree_path branch_name task ai)
     \<noteq> Inl (CalledProcessError rc cmd)"
  using try_except_catches [of _ False "[]" rc cmd]
  by (simp add: terminal_setup_workspace_def return_io_def Let_def del: is_available.simps)

subsection \<open>The name of the resolved branch\<close>




lemma str_nat_nonempty: "str_nat n \<noteq> []"
  by (subst str_nat.simps) simp






lemma strftime_HMS_nonempty: "strftime_HMS t \<noteq> []"
  by (simp add: strftime_HMS_def zfill_def str_nat_nonempty)

lemma strftime_Ymd_HMS_nonempty: "strftime_Ymd_HMS t \<noteq> []"
  by (simp add: strftime_Ymd_HMS_def)
























end
